theory Spec2Isabelle
  imports Complex_Main
begin

section \<open>Dispensary Hub API: the transactional core of \<^verbatim>\<open>backend/api/main.py\<close>\<close>

text \<open>
  The embedding follows the source function by function. A Python \<^verbatim>\<open>str\<close> is a
  \<^typ>\<open>string\<close> (one list element per character), a \<^verbatim>\<open>float\<close> column is a
  \<^typ>\<open>real\<close> (finite values only: the sign tests and \<^verbatim>\<open>abs\<close> of the source are
  exact on them), an optional column is an \<^typ>\<open>'a option\<close>. A table is the list of
  its rows in insertion order. The clock and \<^verbatim>\<open>uuid.uuid4()\<close> are inputs of every call
  (record \<open>env\<close>), so that a call is a function of the request, the inputs it draws and
  the database.
\<close>

subsection \<open>Exceptions\<close>

datatype error =
    HTTPException nat string
  | RequestValidationError
  | IntegrityError
  | TypeError

subsection \<open>Clock, identifiers and requests\<close>

record datetime =
  dt_year :: nat
  dt_month :: nat
  dt_day :: nat
  dt_hour :: nat
  dt_minute :: nat
  dt_second :: nat
  dt_microsecond :: nat

text \<open>
  \<open>utc_now\<close> is the text returned by the call's \<^verbatim>\<open>utc_now()\<close>; \<open>clock\<close> is the
  separate \<^verbatim>\<open>datetime.now(timezone.utc)\<close> read of \<^verbatim>\<open>create_order\<close>; \<open>uuid4 k\<close>
  is the text of the \<open>k\<close>-th \<^verbatim>\<open>uuid.uuid4()\<close> drawn by the call; \<open>jwt_payload\<close>
  is the library part of \<^verbatim>\<open>parse_staff_id\<close> (padding, base64 and JSON decoding of one
  token segment): the claims it decodes to, or \<open>None\<close> where it raises.
\<close>

record env =
  utc_now :: string
  clock :: datetime
  uuid4 :: "nat \<Rightarrow> string"
  jwt_payload :: "string \<Rightarrow> (string \<times> string) list option"

record request =
  rq_method :: string
  rq_path :: string
  rq_headers :: "(string \<times> string) list"
  rq_query_params :: "(string \<times> string) list"
  rq_body :: string

definition WRITE_METHODS :: "string set" where
  "WRITE_METHODS = {''POST'', ''PUT'', ''PATCH'', ''DELETE''}"

definition digit :: "nat \<Rightarrow> char" where
  "digit d = ''0123456789'' ! (d mod 10)"

definition zfill2 :: "nat \<Rightarrow> string" where
  "zfill2 n = [digit (n div 10), digit n]"

definition zfill4 :: "nat \<Rightarrow> string" where
  "zfill4 n = [digit (n div 1000), digit (n div 100), digit (n div 10), digit n]"

text \<open>\<^verbatim>\<open>strftime('%Y%m%d%H%M%S')\<close>: fourteen digits, nothing finer than the second.\<close>

definition strftime_YmdHMS :: "datetime \<Rightarrow> string" where
  "strftime_YmdHMS t =
     zfill4 (dt_year t) @ zfill2 (dt_month t) @ zfill2 (dt_day t) @
     zfill2 (dt_hour t) @ zfill2 (dt_minute t) @ zfill2 (dt_second t)"

subsection \<open>Tables\<close>

record member =
  m_id :: string
  m_member_number :: string
  m_first_name :: string
  m_last_name :: string
  m_date_of_birth :: "string option"
  m_phone :: "string option"
  m_email :: "string option"
  m_status :: string
  m_created_at :: string
  m_updated_at :: string

record member_verification =
  mv_id :: string
  mv_member_id :: string
  mv_outcome :: string
  mv_verified_by_staff_id :: string
  mv_notes :: "string option"
  mv_document_ref :: "string option"
  mv_verified_at :: string
  mv_created_at :: string

record supplier =
  s_id :: string
  s_name :: string
  s_code :: string
  s_contact_name :: "string option"
  s_contact_email :: "string option"
  s_contact_phone :: "string option"
  s_address :: "string option"
  s_is_active :: bool
  s_created_at :: string
  s_updated_at :: string

record product =
  p_id :: string
  p_sku :: string
  p_name :: string
  p_description :: "string option"
  p_unit_of_measure :: string
  p_is_active :: bool
  p_created_at :: string
  p_updated_at :: string

record inventory_movement =
  im_id :: string
  im_product_id :: string
  im_movement_type :: string
  im_quantity :: real
  im_reason :: "string option"
  im_recorded_by_staff_id :: string
  im_occurred_at :: string
  im_created_at :: string

record order_row =
  o_id :: string
  o_member_id :: string
  o_order_number :: string
  o_status :: string
  o_ordered_by_staff_id :: string
  o_ordered_at :: string
  o_completed_at :: "string option"
  o_notes :: "string option"
  o_created_at :: string
  o_updated_at :: string

record order_item =
  oi_id :: string
  oi_order_id :: string
  oi_product_id :: string
  oi_quantity :: real
  oi_unit_price :: real
  oi_created_at :: string

text \<open>
  \<open>event_data\<close> is the object handed to \<^verbatim>\<open>json.dumps\<close>, kept as its three entries.
\<close>

record event_data =
  ed_status_code :: nat
  ed_query :: "(string \<times> string) list"
  ed_body :: string

record audit_event =
  ae_id :: string
  ae_actor_type :: string
  ae_actor_id :: string
  ae_event_type :: string
  ae_entity_type :: string
  ae_entity_id :: string
  ae_event_data :: event_data
  ae_occurred_at :: string
  ae_created_at :: string

record db =
  members :: "member list"
  member_verifications :: "member_verification list"
  suppliers :: "supplier list"
  products :: "product list"
  inventory_movements :: "inventory_movement list"
  orders :: "order_row list"
  order_items :: "order_item list"
  audit_events :: "audit_event list"

definition init_db :: db where
  "init_db = \<lparr>members = [], member_verifications = [], suppliers = [], products = [],
     inventory_movements = [], orders = [], order_items = [], audit_events = []\<rparr>"

subsection \<open>Request bodies (the pydantic models)\<close>

record MemberIn =
  mi_member_number :: string
  mi_first_name :: string
  mi_last_name :: string
  mi_date_of_birth :: "string option"
  mi_phone :: "string option"
  mi_email :: "string option"

record MemberVerifyIn =
  vi_outcome :: string
  vi_notes :: "string option"
  vi_document_ref :: "string option"

record SupplierIn =
  si_name :: string
  si_code :: string
  si_contact_name :: "string option"
  si_contact_email :: "string option"
  si_contact_phone :: "string option"
  si_address :: "string option"
  si_is_active :: bool

record ProductIn =
  pi_sku :: string
  pi_name :: string
  pi_description :: "string option"
  pi_unit_of_measure :: string
  pi_is_active :: bool

record InventoryMovementIn =
  ii_product_id :: string
  ii_quantity :: real
  ii_reason :: "string option"

record OrderItemIn =
  xi_product_id :: string
  xi_quantity :: real
  xi_unit_price :: real

record OrderCreateIn =
  ci_member_id :: string
  ci_notes :: "string option"
  ci_items :: "OrderItemIn list"

subsection \<open>The connection: \<^verbatim>\<open>db_conn\<close>\<close>

text \<open>
  The body of a \<^verbatim>\<open>with db_conn() as conn\<close> block is a function from the connection's
  view of the database to an outcome and the view it leaves. \<^verbatim>\<open>conn.commit()\<close> is
  reached only when the body returns; when it raises, the \<^verbatim>\<open>finally\<close> clause closes
  the connection and what the body wrote is gone.
\<close>

definition db_conn :: "(db \<Rightarrow> (error + 'a) \<times> db) \<Rightarrow> db \<Rightarrow> (error + 'a) \<times> db" where
  "db_conn body d =
     (case body d of
        (Inr r, conn) \<Rightarrow> (Inr r, conn)
      | (Inl x, conn) \<Rightarrow> (Inl x, d))"

text \<open>
  An \<^verbatim>\<open>INSERT\<close> raises \<^verbatim>\<open>sqlite3.IntegrityError\<close> when a \<^verbatim>\<open>PRIMARY KEY\<close> or
  \<^verbatim>\<open>UNIQUE\<close> column of the schema would repeat.
\<close>

definition insert_member :: "member \<Rightarrow> db \<Rightarrow> (error + unit) \<times> db" where
  "insert_member r conn =
     (if m_id r \<in> set (map m_id (members conn))
         \<or> m_member_number r \<in> set (map m_member_number (members conn))
      then (Inl IntegrityError, conn)
      else (Inr (), conn\<lparr>members := members conn @ [r]\<rparr>))"

definition insert_member_verification :: "member_verification \<Rightarrow> db \<Rightarrow> (error + unit) \<times> db" where
  "insert_member_verification r conn =
     (if mv_id r \<in> set (map mv_id (member_verifications conn))
      then (Inl IntegrityError, conn)
      else (Inr (), conn\<lparr>member_verifications := member_verifications conn @ [r]\<rparr>))"

definition insert_supplier :: "supplier \<Rightarrow> db \<Rightarrow> (error + unit) \<times> db" where
  "insert_supplier r conn =
     (if s_id r \<in> set (map s_id (suppliers conn)) \<or> s_code r \<in> set (map s_code (suppliers conn))
      then (Inl IntegrityError, conn)
      else (Inr (), conn\<lparr>suppliers := suppliers conn @ [r]\<rparr>))"

definition insert_product :: "product \<Rightarrow> db \<Rightarrow> (error + unit) \<times> db" where
  "insert_product r conn =
     (if p_id r \<in> set (map p_id (products conn)) \<or> p_sku r \<in> set (map p_sku (products conn))
      then (Inl IntegrityError, conn)
      else (Inr (), conn\<lparr>products := products conn @ [r]\<rparr>))"

definition insert_inventory_movement :: "inventory_movement \<Rightarrow> db \<Rightarrow> (error + unit) \<times> db" where
  "insert_inventory_movement r conn =
     (if im_id r \<in> set (map im_id (inventory_movements conn))
      then (Inl IntegrityError, conn)
      else (Inr (), conn\<lparr>inventory_movements := inventory_movements conn @ [r]\<rparr>))"

definition insert_order :: "order_row \<Rightarrow> db \<Rightarrow> (error + unit) \<times> db" where
  "insert_order r conn =
     (if o_id r \<in> set (map o_id (orders conn))
         \<or> o_order_number r \<in> set (map o_order_number (orders conn))
      then (Inl IntegrityError, conn)
      else (Inr (), conn\<lparr>orders := orders conn @ [r]\<rparr>))"

definition insert_order_item :: "order_item \<Rightarrow> db \<Rightarrow> (error + unit) \<times> db" where
  "insert_order_item r conn =
     (if oi_id r \<in> set (map oi_id (order_items conn))
      then (Inl IntegrityError, conn)
      else (Inr (), conn\<lparr>order_items := order_items conn @ [r]\<rparr>))"

definition insert_audit_event :: "audit_event \<Rightarrow> db \<Rightarrow> (error + unit) \<times> db" where
  "insert_audit_event r conn =
     (if ae_id r \<in> set (map ae_id (audit_events conn))
      then (Inl IntegrityError, conn)
      else (Inr (), conn\<lparr>audit_events := audit_events conn @ [r]\<rparr>))"

subsection \<open>\<^verbatim>\<open>parse_staff_id\<close>\<close>

definition lower_char :: "char \<Rightarrow> char" where
  "lower_char c =
     (case map_of (zip ''ABCDEFGHIJKLMNOPQRSTUVWXYZ'' ''abcdefghijklmnopqrstuvwxyz'') c of
        Some l \<Rightarrow> l
      | None \<Rightarrow> c)"

text \<open>\<^verbatim>\<open>s.split(sep)\<close> for a one-character separator.\<close>

fun split_str :: "char \<Rightarrow> string \<Rightarrow> string list" where
  "split_str sep [] = [[]]"
| "split_str sep (c # cs) =
     (if c = sep then [] # split_str sep cs
      else (case split_str sep cs of
              p # ps \<Rightarrow> (c # p) # ps
            | [] \<Rightarrow> [[c]]))"

text \<open>
  \<^verbatim>\<open>d.get(k)\<close> used as a condition: an absent key and an empty text are both false.
\<close>

definition get_truthy :: "(string \<times> string) list \<Rightarrow> string \<Rightarrow> string option" where
  "get_truthy d k = (case map_of d k of Some (c # cs) \<Rightarrow> Some (c # cs) | _ \<Rightarrow> None)"

definition parse_staff_id :: "env \<Rightarrow> request \<Rightarrow> string" where
  "parse_staff_id e request =
     (case get_truthy (rq_headers request) ''x-staff-id'' of
        Some explicit_staff \<Rightarrow> explicit_staff
      | None \<Rightarrow>
          (let auth = (case map_of (rq_headers request) ''authorization'' of
                         Some a \<Rightarrow> a | None \<Rightarrow> [])
           in if take 7 (map lower_char auth) = ''bearer ''
              then (let token = tl (dropWhile (\<lambda>c. c \<noteq> CHR '' '') auth);
                        parts = split_str CHR ''.'' token
                    in if 2 \<le> length parts
                       then (case jwt_payload e (parts ! 1) of
                               None \<Rightarrow> ''unknown''
                             | Some payload \<Rightarrow>
                                 (case get_truthy payload ''sub'' of
                                    Some sub \<Rightarrow> sub
                                  | None \<Rightarrow>
                                      (case get_truthy payload ''username'' of
                                         Some username \<Rightarrow> username
                                       | None \<Rightarrow> ''unknown'')))
                       else ''unknown'')
              else ''unknown''))"

subsection \<open>What a handler returns\<close>

datatype result =
    Null
  | Login string
  | Deleted
  | MemberRow member
  | SupplierRow supplier
  | ProductRow product
  | MovementRow inventory_movement
  | OrderRow order_row
  | OrderCreated order_row "order_item list"

subsection \<open>Members\<close>

definition staff_login :: "env \<Rightarrow> request \<Rightarrow> db \<Rightarrow> (error + result) \<times> db" where
  "staff_login e request d = (Inr (Login (parse_staff_id e request)), d)"

definition create_member :: "env \<Rightarrow> MemberIn \<Rightarrow> db \<Rightarrow> (error + result) \<times> db" where
  "create_member e payload =
     (let now = utc_now e; member_id = uuid4 e 0
      in db_conn (\<lambda>conn.
           case insert_member
                  \<lparr>m_id = member_id, m_member_number = mi_member_number payload,
                   m_first_name = mi_first_name payload, m_last_name = mi_last_name payload,
                   m_date_of_birth = mi_date_of_birth payload, m_phone = mi_phone payload,
                   m_email = mi_email payload, m_status = ''PENDING'',
                   m_created_at = now, m_updated_at = now\<rparr> conn of
             (Inl x, conn1) \<Rightarrow> (Inl x, conn1)
           | (Inr u, conn1) \<Rightarrow>
               (case find (\<lambda>m. m_id m = member_id) (members conn1) of
                  None \<Rightarrow> (Inr Null, conn1)
                | Some row \<Rightarrow> (Inr (MemberRow row), conn1))))"

text \<open>
  \<^verbatim>\<open>UPDATE members SET member_number=?, ... WHERE id=?\<close>: the status column is not
  among the assigned ones. The \<^verbatim>\<open>UNIQUE\<close> member number may collide with another row.
\<close>

definition update_member :: "env \<Rightarrow> string \<Rightarrow> MemberIn \<Rightarrow> db \<Rightarrow> (error + result) \<times> db" where
  "update_member e member_id payload =
     db_conn (\<lambda>conn.
       case find (\<lambda>m. m_id m = member_id) (members conn) of
         None \<Rightarrow> (Inl (HTTPException 404 ''Member not found''), conn)
       | Some exists \<Rightarrow>
           if \<exists>m \<in> set (members conn).
                m_id m \<noteq> member_id \<and> m_member_number m = mi_member_number payload
           then (Inl IntegrityError, conn)
           else (let conn1 = conn\<lparr>members :=
                       map (\<lambda>m. if m_id m = member_id
                                 then m\<lparr>m_member_number := mi_member_number payload,
                                        m_first_name := mi_first_name payload,
                                        m_last_name := mi_last_name payload,
                                        m_date_of_birth := mi_date_of_birth payload,
                                        m_phone := mi_phone payload,
                                        m_email := mi_email payload,
                                        m_updated_at := utc_now e\<rparr>
                                 else m) (members conn)\<rparr>
                 in case find (\<lambda>m. m_id m = member_id) (members conn1) of
                      None \<Rightarrow> (Inl TypeError, conn1)
                    | Some row \<Rightarrow> (Inr (MemberRow row), conn1)))"

text \<open>The 404 of \<^verbatim>\<open>delete_member\<close> is raised after the block, hence after the commit.\<close>

definition delete_member :: "string \<Rightarrow> db \<Rightarrow> (error + result) \<times> db" where
  "delete_member member_id d =
     (case db_conn (\<lambda>conn.
             (Inr (length (filter (\<lambda>m. m_id m = member_id) (members conn))),
              conn\<lparr>members := filter (\<lambda>m. m_id m \<noteq> member_id) (members conn)\<rparr>)) d of
        (Inl x, d1) \<Rightarrow> (Inl x, d1)
      | (Inr deleted, d1) \<Rightarrow>
          if deleted = (0::nat) then (Inl (HTTPException 404 ''Member not found''), d1)
          else (Inr Deleted, d1))"

definition verify_member ::
  "env \<Rightarrow> string \<Rightarrow> MemberVerifyIn \<Rightarrow> request \<Rightarrow> db \<Rightarrow> (error + result) \<times> db" where
  "verify_member e member_id payload request =
     (let now = utc_now e
      in db_conn (\<lambda>conn.
           case find (\<lambda>m. m_id m = member_id) (members conn) of
             None \<Rightarrow> (Inl (HTTPException 404 ''Member not found''), conn)
           | Some member \<Rightarrow>
               (case insert_member_verification
                       \<lparr>mv_id = uuid4 e 0, mv_member_id = member_id,
                        mv_outcome = vi_outcome payload,
                        mv_verified_by_staff_id = parse_staff_id e request,
                        mv_notes = vi_notes payload, mv_document_ref = vi_document_ref payload,
                        mv_verified_at = now, mv_created_at = now\<rparr> conn of
                  (Inl x, conn1) \<Rightarrow> (Inl x, conn1)
                | (Inr u, conn1) \<Rightarrow>
                    (let conn2 = conn1\<lparr>members :=
                           map (\<lambda>m. if m_id m = member_id
                                     then m\<lparr>m_status := vi_outcome payload, m_updated_at := now\<rparr>
                                     else m) (members conn1)\<rparr>
                     in case find (\<lambda>m. m_id m = member_id) (members conn2) of
                          None \<Rightarrow> (Inl TypeError, conn2)
                        | Some row \<Rightarrow> (Inr (MemberRow row), conn2)))))"

subsection \<open>\<^verbatim>\<open>build_crud_routes\<close>, once per table it is called for\<close>

definition create_item_suppliers :: "env \<Rightarrow> SupplierIn \<Rightarrow> db \<Rightarrow> (error + result) \<times> db" where
  "create_item_suppliers e payload =
     (let now = utc_now e; item_id = uuid4 e 0
      in db_conn (\<lambda>conn.
           case insert_supplier
                  \<lparr>s_id = item_id, s_name = si_name payload, s_code = si_code payload,
                   s_contact_name = si_contact_name payload,
                   s_contact_email = si_contact_email payload,
                   s_contact_phone = si_contact_phone payload,
                   s_address = si_address payload, s_is_active = si_is_active payload,
                   s_created_at = now, s_updated_at = now\<rparr> conn of
             (Inl x, conn1) \<Rightarrow> (Inl x, conn1)
           | (Inr u, conn1) \<Rightarrow>
               (case find (\<lambda>r. s_id r = item_id) (suppliers conn1) of
                  None \<Rightarrow> (Inl TypeError, conn1)
                | Some row \<Rightarrow> (Inr (SupplierRow row), conn1))))"

definition update_item_suppliers ::
  "env \<Rightarrow> string \<Rightarrow> SupplierIn \<Rightarrow> db \<Rightarrow> (error + result) \<times> db" where
  "update_item_suppliers e item_id payload =
     db_conn (\<lambda>conn.
       case find (\<lambda>r. s_id r = item_id) (suppliers conn) of
         None \<Rightarrow> (Inl (HTTPException 404 ''Not found''), conn)
       | Some exists \<Rightarrow>
           if \<exists>r \<in> set (suppliers conn). s_id r \<noteq> item_id \<and> s_code r = si_code payload
           then (Inl IntegrityError, conn)
           else (let conn1 = conn\<lparr>suppliers :=
                       map (\<lambda>r. if s_id r = item_id
                                 then r\<lparr>s_name := si_name payload, s_code := si_code payload,
                                        s_contact_name := si_contact_name payload,
                                        s_contact_email := si_contact_email payload,
                                        s_contact_phone := si_contact_phone payload,
                                        s_address := si_address payload,
                                        s_is_active := si_is_active payload,
                                        s_updated_at := utc_now e\<rparr>
                                 else r) (suppliers conn)\<rparr>
                 in case find (\<lambda>r. s_id r = item_id) (suppliers conn1) of
                      None \<Rightarrow> (Inl TypeError, conn1)
                    | Some row \<Rightarrow> (Inr (SupplierRow row), conn1)))"

definition delete_item_suppliers :: "string \<Rightarrow> db \<Rightarrow> (error + result) \<times> db" where
  "delete_item_suppliers item_id d =
     (case db_conn (\<lambda>conn.
             (Inr (length (filter (\<lambda>r. s_id r = item_id) (suppliers conn))),
              conn\<lparr>suppliers := filter (\<lambda>r. s_id r \<noteq> item_id) (suppliers conn)\<rparr>)) d of
        (Inl x, d1) \<Rightarrow> (Inl x, d1)
      | (Inr deleted, d1) \<Rightarrow>
          if deleted = (0::nat) then (Inl (HTTPException 404 ''Not found''), d1)
          else (Inr Deleted, d1))"

definition create_item_products :: "env \<Rightarrow> ProductIn \<Rightarrow> db \<Rightarrow> (error + result) \<times> db" where
  "create_item_products e payload =
     (let now = utc_now e; item_id = uuid4 e 0
      in db_conn (\<lambda>conn.
           case insert_product
                  \<lparr>p_id = item_id, p_sku = pi_sku payload, p_name = pi_name payload,
                   p_description = pi_description payload,
                   p_unit_of_measure = pi_unit_of_measure payload,
                   p_is_active = pi_is_active payload,
                   p_created_at = now, p_updated_at = now\<rparr> conn of
             (Inl x, conn1) \<Rightarrow> (Inl x, conn1)
           | (Inr u, conn1) \<Rightarrow>
               (case find (\<lambda>r. p_id r = item_id) (products conn1) of
                  None \<Rightarrow> (Inl TypeError, conn1)
                | Some row \<Rightarrow> (Inr (ProductRow row), conn1))))"

definition update_item_products ::
  "env \<Rightarrow> string \<Rightarrow> ProductIn \<Rightarrow> db \<Rightarrow> (error + result) \<times> db" where
  "update_item_products e item_id payload =
     db_conn (\<lambda>conn.
       case find (\<lambda>r. p_id r = item_id) (products conn) of
         None \<Rightarrow> (Inl (HTTPException 404 ''Not found''), conn)
       | Some exists \<Rightarrow>
           if \<exists>r \<in> set (products conn). p_id r \<noteq> item_id \<and> p_sku r = pi_sku payload
           then (Inl IntegrityError, conn)
           else (let conn1 = conn\<lparr>products :=
                       map (\<lambda>r. if p_id r = item_id
                                 then r\<lparr>p_sku := pi_sku payload, p_name := pi_name payload,
                                        p_description := pi_description payload,
                                        p_unit_of_measure := pi_unit_of_measure payload,
                                        p_is_active := pi_is_active payload,
                                        p_updated_at := utc_now e\<rparr>
                                 else r) (products conn)\<rparr>
                 in case find (\<lambda>r. p_id r = item_id) (products conn1) of
                      None \<Rightarrow> (Inl TypeError, conn1)
                    | Some row \<Rightarrow> (Inr (ProductRow row), conn1)))"

definition delete_item_products :: "string \<Rightarrow> db \<Rightarrow> (error + result) \<times> db" where
  "delete_item_products item_id d =
     (case db_conn (\<lambda>conn.
             (Inr (length (filter (\<lambda>r. p_id r = item_id) (products conn))),
              conn\<lparr>products := filter (\<lambda>r. p_id r \<noteq> item_id) (products conn)\<rparr>)) d of
        (Inl x, d1) \<Rightarrow> (Inl x, d1)
      | (Inr deleted, d1) \<Rightarrow>
          if deleted = (0::nat) then (Inl (HTTPException 404 ''Not found''), d1)
          else (Inr Deleted, d1))"

subsection \<open>Inventory movements\<close>

text \<open>
  The quantity checks come first and raise before the connection is opened; the product
  lookup is inside the block.
\<close>

definition create_inventory_movement ::
  "env \<Rightarrow> string \<Rightarrow> InventoryMovementIn \<Rightarrow> request \<Rightarrow> db \<Rightarrow> (error + result) \<times> db" where
  "create_inventory_movement e kind payload request d =
     (if kind \<in> {''RECEIVE'', ''WASTE''} \<and> ii_quantity payload \<le> 0
      then (Inl (HTTPException 400 ''Quantity must be greater than zero''), d)
      else
        (let quantity = (if kind = ''WASTE'' then - \<bar>ii_quantity payload\<bar>
                         else ii_quantity payload)
         in if kind = ''ADJUST'' \<and> quantity = 0
            then (Inl (HTTPException 400 ''Quantity cannot be zero''), d)
            else
              (let movement_id = uuid4 e 0; now = utc_now e
               in db_conn (\<lambda>conn.
                    case find (\<lambda>p. p_id p = ii_product_id payload) (products conn) of
                      None \<Rightarrow> (Inl (HTTPException 404 ''Product not found''), conn)
                    | Some product \<Rightarrow>
                        (case insert_inventory_movement
                                \<lparr>im_id = movement_id, im_product_id = ii_product_id payload,
                                 im_movement_type = kind, im_quantity = quantity,
                                 im_reason = ii_reason payload,
                                 im_recorded_by_staff_id = parse_staff_id e request,
                                 im_occurred_at = now, im_created_at = now\<rparr> conn of
                           (Inl x, conn1) \<Rightarrow> (Inl x, conn1)
                         | (Inr u, conn1) \<Rightarrow>
                             (case find (\<lambda>r. im_id r = movement_id)
                                     (inventory_movements conn1) of
                                None \<Rightarrow> (Inl TypeError, conn1)
                              | Some row \<Rightarrow> (Inr (MovementRow row), conn1)))) d)))"

definition inventory_receive ::
  "env \<Rightarrow> InventoryMovementIn \<Rightarrow> request \<Rightarrow> db \<Rightarrow> (error + result) \<times> db" where
  "inventory_receive e payload request = create_inventory_movement e ''RECEIVE'' payload request"

definition inventory_adjust ::
  "env \<Rightarrow> InventoryMovementIn \<Rightarrow> request \<Rightarrow> db \<Rightarrow> (error + result) \<times> db" where
  "inventory_adjust e payload request = create_inventory_movement e ''ADJUST'' payload request"

definition inventory_waste ::
  "env \<Rightarrow> InventoryMovementIn \<Rightarrow> request \<Rightarrow> db \<Rightarrow> (error + result) \<times> db" where
  "inventory_waste e payload request = create_inventory_movement e ''WASTE'' payload request"


subsection \<open>Orders\<close>

definition require_verified_member :: "db \<Rightarrow> string \<Rightarrow> error + unit" where
  "require_verified_member conn member_id =
     (case find (\<lambda>m. m_id m = member_id) (members conn) of
        None \<Rightarrow> Inl (HTTPException 404 ''Member not found'')
      | Some member \<Rightarrow>
          if m_status member \<noteq> ''VERIFIED''
          then Inl (HTTPException 400
                 ''Member must be VERIFIED before orders can be created/finalized'')
          else Inr ())"

text \<open>The loop over \<^verbatim>\<open>payload.items\<close>; \<open>k\<close> counts the identifiers drawn so far.\<close>

fun insert_items ::
  "env \<Rightarrow> string \<Rightarrow> string \<Rightarrow> nat \<Rightarrow> OrderItemIn list \<Rightarrow> db \<Rightarrow> (error + unit) \<times> db" where
  "insert_items e order_id now k [] conn = (Inr (), conn)"
| "insert_items e order_id now k (item # items) conn =
     (case insert_order_item
             \<lparr>oi_id = uuid4 e k, oi_order_id = order_id, oi_product_id = xi_product_id item,
              oi_quantity = xi_quantity item, oi_unit_price = xi_unit_price item,
              oi_created_at = now\<rparr> conn of
        (Inl x, conn1) \<Rightarrow> (Inl x, conn1)
      | (Inr u, conn1) \<Rightarrow> insert_items e order_id now (Suc k) items conn1)"

text \<open>
  The order identifier is the first \<^verbatim>\<open>uuid4()\<close> of the call, the lines take the next
  ones. The order number is built from the clock alone. The lines returned are read back
  \<^verbatim>\<open>ORDER BY created_at\<close>; they all carry the same \<open>created_at\<close>, and the model
  returns them in insertion order.
\<close>

definition create_order :: "env \<Rightarrow> OrderCreateIn \<Rightarrow> request \<Rightarrow> db \<Rightarrow> (error + result) \<times> db" where
  "create_order e payload request d =
     (if ci_items payload = []
      then (Inl (HTTPException 400 ''Order requires at least one item''), d)
      else
        (let order_id = uuid4 e 0; now = utc_now e;
             order_number = ''ORD-'' @ strftime_YmdHMS (clock e)
         in db_conn (\<lambda>conn.
              case require_verified_member conn (ci_member_id payload) of
                Inl x \<Rightarrow> (Inl x, conn)
              | Inr u \<Rightarrow>
                  (case insert_order
                          \<lparr>o_id = order_id, o_member_id = ci_member_id payload,
                           o_order_number = order_number, o_status = ''PLACED'',
                           o_ordered_by_staff_id = parse_staff_id e request,
                           o_ordered_at = now, o_completed_at = None,
                           o_notes = ci_notes payload,
                           o_created_at = now, o_updated_at = now\<rparr> conn of
                     (Inl x, conn1) \<Rightarrow> (Inl x, conn1)
                   | (Inr u1, conn1) \<Rightarrow>
                       (case insert_items e order_id now 1 (ci_items payload) conn1 of
                          (Inl x, conn2) \<Rightarrow> (Inl x, conn2)
                        | (Inr u2, conn2) \<Rightarrow>
                            (case find (\<lambda>r. o_id r = order_id) (orders conn2) of
                               None \<Rightarrow> (Inl TypeError, conn2)
                             | Some order \<Rightarrow>
                                 (Inr (OrderCreated order
                                         (filter (\<lambda>r. oi_order_id r = order_id)
                                            (order_items conn2))),
                                  conn2))))) d))"

text \<open>
  The loop over the order's lines. Each line is the pair selected by
  \<^verbatim>\<open>SELECT product_id, quantity\<close>.
\<close>

fun dispense_items ::
  "env \<Rightarrow> string \<Rightarrow> string \<Rightarrow> order_row \<Rightarrow> nat \<Rightarrow> (string \<times> real) list \<Rightarrow> db
     \<Rightarrow> (error + unit) \<times> db" where
  "dispense_items e staff_id now order k [] conn = (Inr (), conn)"
| "dispense_items e staff_id now order k (item # items) conn =
     (case insert_inventory_movement
             \<lparr>im_id = uuid4 e k, im_product_id = fst item, im_movement_type = ''DISPENSE'',
              im_quantity = - \<bar>snd item\<bar>,
              im_reason = Some (''Dispense for order '' @ o_order_number order),
              im_recorded_by_staff_id = staff_id,
              im_occurred_at = now, im_created_at = now\<rparr> conn of
        (Inl x, conn1) \<Rightarrow> (Inl x, conn1)
      | (Inr u, conn1) \<Rightarrow> dispense_items e staff_id now order (Suc k) items conn1)"

definition finalize_order :: "env \<Rightarrow> string \<Rightarrow> request \<Rightarrow> db \<Rightarrow> (error + result) \<times> db" where
  "finalize_order e order_id request =
     (let now = utc_now e
      in db_conn (\<lambda>conn.
           case find (\<lambda>r. o_id r = order_id) (orders conn) of
             None \<Rightarrow> (Inl (HTTPException 404 ''Order not found''), conn)
           | Some order \<Rightarrow>
               if o_status order = ''COMPLETED''
               then (Inl (HTTPException 400 ''Order already finalized''), conn)
               else
                 (case require_verified_member conn (o_member_id order) of
                    Inl x \<Rightarrow> (Inl x, conn)
                  | Inr u \<Rightarrow>
                      (let items = map (\<lambda>r. (oi_product_id r, oi_quantity r))
                                     (filter (\<lambda>r. oi_order_id r = order_id) (order_items conn))
                       in if items = []
                          then (Inl (HTTPException 400 ''Order has no items''), conn)
                          else
                            (let staff_id = parse_staff_id e request
                             in case dispense_items e staff_id now order 0 items conn of
                                  (Inl x, conn1) \<Rightarrow> (Inl x, conn1)
                                | (Inr u1, conn1) \<Rightarrow>
                                    (let conn2 = conn1\<lparr>orders :=
                                           map (\<lambda>r. if o_id r = order_id
                                                     then r\<lparr>o_status := ''COMPLETED'',
                                                            o_completed_at := Some now,
                                                            o_updated_at := now\<rparr>
                                                     else r) (orders conn1)\<rparr>
                                     in case find (\<lambda>r. o_id r = order_id) (orders conn2) of
                                          None \<Rightarrow> (Inl TypeError, conn2)
                                        | Some finalized \<Rightarrow>
                                            (Inr (OrderRow finalized), conn2)))))))"

subsection \<open>The audit middleware\<close>

record response =
  rs_status_code :: nat
  rs_content :: "string + result"

definition body_as_text :: "request \<Rightarrow> string" where
  "body_as_text request = rq_body request"

text \<open>
  \<open>call_next\<close> is the rest of the application: it returns a response or raises. The
  audit row is written in a connection of its own, after \<open>call_next\<close> has returned; an
  exception of \<open>call_next\<close> leaves the function before that.
\<close>

definition audit_write_middleware ::
  "env \<Rightarrow> request \<Rightarrow> (db \<Rightarrow> (error + response) \<times> db) \<Rightarrow> db \<Rightarrow> (error + response) \<times> db" where
  "audit_write_middleware e request call_next d =
     (let body = (if rq_method request \<in> WRITE_METHODS then body_as_text request else [])
      in case call_next d of
           (Inl x, d1) \<Rightarrow> (Inl x, d1)
         | (Inr response, d1) \<Rightarrow>
             if rq_method request \<in> WRITE_METHODS
             then (let now = utc_now e
                   in case db_conn (insert_audit_event
                             \<lparr>ae_id = uuid4 e 0, ae_actor_type = ''STAFF'',
                              ae_actor_id = parse_staff_id e request,
                              ae_event_type = ''HTTP_'' @ rq_method request,
                              ae_entity_type = ''endpoint'',
                              ae_entity_id = rq_path request,
                              ae_event_data =
                                \<lparr>ed_status_code = rs_status_code response,
                                 ed_query = rq_query_params request,
                                 ed_body = take 3000 body\<rparr>,
                              ae_occurred_at = now, ae_created_at = now\<rparr>) d1 of
                        (Inl x, d2) \<Rightarrow> (Inl x, d2)
                      | (Inr u, d2) \<Rightarrow> (Inr response, d2))
             else (Inr response, d1))"

subsection \<open>The application: routes, framework responses, reachable databases\<close>

text \<open>
  One constructor per writing route. \<open>Other\<close> stands for every request that runs none of
  them: a \<^verbatim>\<open>GET\<close> route, which only reads, or a request the framework answers itself
  (no such route, method not allowed); its argument is the status of the response.
\<close>

datatype call =
    StaffLogin
  | CreateMember MemberIn
  | UpdateMember string MemberIn
  | DeleteMember string
  | VerifyMember string MemberVerifyIn
  | CreateSupplier SupplierIn
  | UpdateSupplier string SupplierIn
  | DeleteSupplier string
  | CreateProduct ProductIn
  | UpdateProduct string ProductIn
  | DeleteProduct string
  | InventoryReceive InventoryMovementIn
  | InventoryAdjust InventoryMovementIn
  | InventoryWaste InventoryMovementIn
  | CreateOrder OrderCreateIn
  | FinalizeOrder string
  | Other nat

fun method_of :: "call \<Rightarrow> string" where
  "method_of (UpdateMember i p) = ''PUT''"
| "method_of (UpdateSupplier i p) = ''PUT''"
| "method_of (UpdateProduct i p) = ''PUT''"
| "method_of (DeleteMember i) = ''DELETE''"
| "method_of (DeleteSupplier i) = ''DELETE''"
| "method_of (DeleteProduct i) = ''DELETE''"
| "method_of c = ''POST''"

fun path_of :: "call \<Rightarrow> string" where
  "path_of StaffLogin = ''/staff/login''"
| "path_of (CreateMember p) = ''/members''"
| "path_of (UpdateMember i p) = ''/members/'' @ i"
| "path_of (DeleteMember i) = ''/members/'' @ i"
| "path_of (VerifyMember i p) = ''/members/'' @ i @ ''/verify''"
| "path_of (CreateSupplier p) = ''/suppliers''"
| "path_of (UpdateSupplier i p) = ''/suppliers/'' @ i"
| "path_of (DeleteSupplier i) = ''/suppliers/'' @ i"
| "path_of (CreateProduct p) = ''/products''"
| "path_of (UpdateProduct i p) = ''/products/'' @ i"
| "path_of (DeleteProduct i) = ''/products/'' @ i"
| "path_of (InventoryReceive p) = ''/inventory/receive''"
| "path_of (InventoryAdjust p) = ''/inventory/adjust''"
| "path_of (InventoryWaste p) = ''/inventory/waste''"
| "path_of (CreateOrder p) = ''/orders''"
| "path_of (FinalizeOrder i) = ''/orders/'' @ i @ ''/finalize''"
| "path_of (Other st) = []"

definition routed :: "request \<Rightarrow> call \<Rightarrow> bool" where
  "routed request c =
     (case c of
        Other st \<Rightarrow> True
      | _ \<Rightarrow> rq_method request = method_of c \<and> rq_path request = path_of c)"

text \<open>
  The field constraints of the pydantic models: \<^verbatim>\<open>pattern="^(VERIFIED|REJECTED)$"\<close>,
  \<^verbatim>\<open>gt=0\<close>, \<^verbatim>\<open>ge=0\<close>. A body that breaks one never reaches the handler.
\<close>

definition valid_MemberVerifyIn :: "MemberVerifyIn \<Rightarrow> bool" where
  "valid_MemberVerifyIn p = (vi_outcome p = ''VERIFIED'' \<or> vi_outcome p = ''REJECTED'')"

definition valid_OrderItemIn :: "OrderItemIn \<Rightarrow> bool" where
  "valid_OrderItemIn i = (0 < xi_quantity i \<and> 0 \<le> xi_unit_price i)"

definition valid_OrderCreateIn :: "OrderCreateIn \<Rightarrow> bool" where
  "valid_OrderCreateIn p = list_all valid_OrderItemIn (ci_items p)"

fun endpoint :: "env \<Rightarrow> request \<Rightarrow> call \<Rightarrow> db \<Rightarrow> (error + result) \<times> db" where
  "endpoint e request StaffLogin d = staff_login e request d"
| "endpoint e request (CreateMember p) d = create_member e p d"
| "endpoint e request (UpdateMember i p) d = update_member e i p d"
| "endpoint e request (DeleteMember i) d = delete_member i d"
| "endpoint e request (VerifyMember i p) d =
     (if valid_MemberVerifyIn p then verify_member e i p request d
      else (Inl RequestValidationError, d))"
| "endpoint e request (CreateSupplier p) d = create_item_suppliers e p d"
| "endpoint e request (UpdateSupplier i p) d = update_item_suppliers e i p d"
| "endpoint e request (DeleteSupplier i) d = delete_item_suppliers i d"
| "endpoint e request (CreateProduct p) d = create_item_products e p d"
| "endpoint e request (UpdateProduct i p) d = update_item_products e i p d"
| "endpoint e request (DeleteProduct i) d = delete_item_products i d"
| "endpoint e request (InventoryReceive p) d = inventory_receive e p request d"
| "endpoint e request (InventoryAdjust p) d = inventory_adjust e p request d"
| "endpoint e request (InventoryWaste p) d = inventory_waste e p request d"
| "endpoint e request (CreateOrder p) d =
     (if valid_OrderCreateIn p then create_order e p request d
      else (Inl RequestValidationError, d))"
| "endpoint e request (FinalizeOrder i) d = finalize_order e i request d"
| "endpoint e request (Other st) d = (Inl (HTTPException st []), d)"

text \<open>
  What the framework makes of a handler's outcome before the middleware sees it: a
  returned value is a 200 response, an \<^verbatim>\<open>HTTPException\<close> a response with its status,
  a validation failure a 422 response; any other exception is raised through the
  middleware.
\<close>

definition respond :: "(db \<Rightarrow> (error + result) \<times> db) \<Rightarrow> db \<Rightarrow> (error + response) \<times> db" where
  "respond handler d =
     (case handler d of
        (Inr r, d1) \<Rightarrow> (Inr \<lparr>rs_status_code = 200, rs_content = Inr r\<rparr>, d1)
      | (Inl (HTTPException st detail), d1) \<Rightarrow>
          (Inr \<lparr>rs_status_code = st, rs_content = Inl detail\<rparr>, d1)
      | (Inl RequestValidationError, d1) \<Rightarrow>
          (Inr \<lparr>rs_status_code = 422, rs_content = Inl []\<rparr>, d1)
      | (Inl x, d1) \<Rightarrow> (Inl x, d1))"

text \<open>
  One request: \<open>e\<close> holds what the handler draws, \<open>ea\<close> what the middleware draws.
\<close>

definition app :: "env \<Rightarrow> env \<Rightarrow> request \<Rightarrow> call \<Rightarrow> db \<Rightarrow> (error + response) \<times> db" where
  "app e ea request c = audit_write_middleware ea request (respond (endpoint e request c))"

text \<open>
  The databases the application can be in when requests are served one after another,
  each with whatever clock readings and identifiers it draws.
\<close>

inductive reachable :: "db \<Rightarrow> bool" where
  reachable_init: "reachable init_db"
| reachable_step: "reachable d \<Longrightarrow> routed request c \<Longrightarrow> reachable (snd (app e ea request c d))"

subsection \<open>The rows the dispensing loop writes\<close>

text \<open>
  The rows that \<open>dispense_items\<close> hands to \<^verbatim>\<open>INSERT\<close>, in the order of the lines.
\<close>

fun dispense_rows ::
  "env \<Rightarrow> string \<Rightarrow> string \<Rightarrow> order_row \<Rightarrow> nat \<Rightarrow> (string \<times> real) list
     \<Rightarrow> inventory_movement list" where
  "dispense_rows e staff_id now order k [] = []"
| "dispense_rows e staff_id now order k (item # items) =
     \<lparr>im_id = uuid4 e k, im_product_id = fst item, im_movement_type = ''DISPENSE'',
      im_quantity = - \<bar>snd item\<bar>,
      im_reason = Some (''Dispense for order '' @ o_order_number order),
      im_recorded_by_staff_id = staff_id,
      im_occurred_at = now, im_created_at = now\<rparr>
     # dispense_rows e staff_id now order (Suc k) items"

subsection \<open>A small database for concrete runs\<close>

text \<open>
  \<open>ex_env tag us\<close> draws the identifiers \<open>tag\<close>, \<open>tag+\<close>, \<open>tag++\<close>, ... and reads the
  clock at microsecond \<open>us\<close> of 2026-01-01 00:00:00.
\<close>

definition ex_env :: "string \<Rightarrow> nat \<Rightarrow> env" where
  "ex_env tag us =
     \<lparr>utc_now = ''2026-01-01T00:00:00+00:00'',
      clock = \<lparr>dt_year = 2026, dt_month = 1, dt_day = 1, dt_hour = 0, dt_minute = 0,
               dt_second = 0, dt_microsecond = us\<rparr>,
      uuid4 = (\<lambda>k. tag @ replicate k CHR ''+''),
      jwt_payload = (\<lambda>s. None)\<rparr>"

definition ex_request :: "string \<Rightarrow> string \<Rightarrow> request" where
  "ex_request m p =
     \<lparr>rq_method = m, rq_path = p, rq_headers = [(''x-staff-id'', ''staff-123'')],
      rq_query_params = [], rq_body = ''{}''\<rparr>"

definition ex_member :: "string \<Rightarrow> string \<Rightarrow> member" where
  "ex_member i st =
     \<lparr>m_id = i, m_member_number = ''M-'' @ i, m_first_name = ''Jane'', m_last_name = ''Doe'',
      m_date_of_birth = None, m_phone = None, m_email = None, m_status = st,
      m_created_at = ''2025-12-01T00:00:00+00:00'',
      m_updated_at = ''2025-12-01T00:00:00+00:00''\<rparr>"

definition ex_order :: "string \<Rightarrow> string \<Rightarrow> string \<Rightarrow> order_row" where
  "ex_order i mid num =
     \<lparr>o_id = i, o_member_id = mid, o_order_number = num, o_status = ''PLACED'',
      o_ordered_by_staff_id = ''staff-123'', o_ordered_at = ''2025-12-02T00:00:00+00:00'',
      o_completed_at = None, o_notes = None,
      o_created_at = ''2025-12-02T00:00:00+00:00'',
      o_updated_at = ''2025-12-02T00:00:00+00:00''\<rparr>"

definition ex_item :: "string \<Rightarrow> string \<Rightarrow> string \<Rightarrow> real \<Rightarrow> order_item" where
  "ex_item i oid pid q =
     \<lparr>oi_id = i, oi_order_id = oid, oi_product_id = pid, oi_quantity = q,
      oi_unit_price = 100, oi_created_at = ''2025-12-02T00:00:00+00:00''\<rparr>"

text \<open>
  Member \<open>m1\<close> is verified, \<open>m2\<close> has been rejected after placing order \<open>o2\<close>. Order
  \<open>o1\<close> has two lines; the product of the second, \<open>p9\<close>, is not in the catalogue, and
  the one unit of \<open>p1\<close> that was received is less than the first line asks for.
\<close>

definition ex_db :: db where
  "ex_db =
     \<lparr>members = [ex_member ''m1'' ''VERIFIED'', ex_member ''m2'' ''REJECTED''],
      member_verifications = [],
      suppliers = [],
      products =
        [\<lparr>p_id = ''p1'', p_sku = ''SKU1'', p_name = ''Blue Dream'', p_description = None,
          p_unit_of_measure = ''g'', p_is_active = True,
          p_created_at = ''2025-12-01T00:00:00+00:00'',
          p_updated_at = ''2025-12-01T00:00:00+00:00''\<rparr>],
      inventory_movements =
        [\<lparr>im_id = ''r1'', im_product_id = ''p1'', im_movement_type = ''RECEIVE'',
          im_quantity = 1, im_reason = None, im_recorded_by_staff_id = ''staff-123'',
          im_occurred_at = ''2025-12-01T00:00:00+00:00'',
          im_created_at = ''2025-12-01T00:00:00+00:00''\<rparr>],
      orders = [ex_order ''o1'' ''m1'' ''ORD-20251202000000'',
                ex_order ''o2'' ''m2'' ''ORD-20251202000001''],
      order_items = [ex_item ''i1'' ''o1'' ''p1'' 2, ex_item ''i2'' ''o1'' ''p9'' (1/2),
                     ex_item ''i3'' ''o2'' ''p1'' 1],
      audit_events = []\<rparr>"

subsection \<open>A run from the empty database\<close>

text \<open>
  Four requests served in a row: a member is created, verified, an order is placed for
  her and finalized.
\<close>

definition ex_d1 :: db where
  "ex_d1 = snd (app (ex_env ''m'' 0) (ex_env ''a1'' 0) (ex_request ''POST'' ''/members'')
     (CreateMember \<lparr>mi_member_number = ''M-001'', mi_first_name = ''Jane'', mi_last_name = ''Doe'',
        mi_date_of_birth = None, mi_phone = None, mi_email = None\<rparr>) init_db)"

definition ex_d2 :: db where
  "ex_d2 = snd (app (ex_env ''v'' 0) (ex_env ''a2'' 0) (ex_request ''POST'' ''/members/m/verify'')
     (VerifyMember ''m'' \<lparr>vi_outcome = ''VERIFIED'', vi_notes = None, vi_document_ref = None\<rparr>)
     ex_d1)"

definition ex_d3 :: db where
  "ex_d3 = snd (app (ex_env ''o'' 0) (ex_env ''a3'' 0) (ex_request ''POST'' ''/orders'')
     (CreateOrder \<lparr>ci_member_id = ''m'', ci_notes = None,
        ci_items = [\<lparr>xi_product_id = ''p1'', xi_quantity = 1, xi_unit_price = 100\<rparr>]\<rparr>) ex_d2)"

definition ex_d4 :: db where
  "ex_d4 = snd (app (ex_env ''d'' 0) (ex_env ''a4'' 0) (ex_request ''POST'' ''/orders/o/finalize'')
     (FinalizeOrder ''o'') ex_d3)"

section \<open>Properties\<close>

subsection \<open>Lists and lookups\<close>

lemma find_map_same_key:
  "(\<And>x. key (f x) = key x) \<Longrightarrow>
   find (\<lambda>r. key r = k) (map f xs) = map_option f (find (\<lambda>r. key r = k) xs)"
  by (induction xs) auto

lemma find_Some_set: "find P xs = Some x \<Longrightarrow> x \<in> set xs \<and> P x"
  by (induction xs) (auto split: if_splits)

subsection \<open>The dispensing loop\<close>

lemma length_dispense_rows: "length (dispense_rows e s now order k items) = length items"
  by (induction items arbitrary: k) auto

lemma nth_dispense_rows:
  "j < length items \<Longrightarrow>
   dispense_rows e s now order k items ! j =
     \<lparr>im_id = uuid4 e (k + j), im_product_id = fst (items ! j), im_movement_type = ''DISPENSE'',
      im_quantity = - \<bar>snd (items ! j)\<bar>,
      im_reason = Some (''Dispense for order '' @ o_order_number order),
      im_recorded_by_staff_id = s,
      im_occurred_at = now, im_created_at = now\<rparr>"
proof (induction items arbitrary: k j)
  case Nil
  then show ?case by simp
next
  case (Cons item items)
  then show ?case by (cases j) auto
qed

lemma dispense_items_Inr:
  "dispense_items e s now order k items conn = (Inr u, conn1) \<Longrightarrow>
   conn1 = conn\<lparr>inventory_movements :=
             inventory_movements conn @ dispense_rows e s now order k items\<rparr>"
proof (induction items arbitrary: k conn)
  case Nil
  then show ?case by simp
next
  case (Cons item items)
  let ?c1 = "conn\<lparr>inventory_movements := inventory_movements conn @
      [\<lparr>im_id = uuid4 e k, im_product_id = fst item, im_movement_type = ''DISPENSE'',
        im_quantity = - \<bar>snd item\<bar>,
        im_reason = Some (''Dispense for order '' @ o_order_number order),
        im_recorded_by_staff_id = s,
        im_occurred_at = now, im_created_at = now\<rparr>]\<rparr>"
  from Cons.prems have rest: "dispense_items e s now order (Suc k) items ?c1 = (Inr u, conn1)"
    by (auto simp: insert_inventory_movement_def split: if_splits)
  from Cons.IH[OF rest] show ?case by simp
qed


subsection \<open>Finalizing an order\<close>

text \<open>
  Claim C1. Whenever \<open>finalize_order\<close> returns, the movement table has grown by exactly
  one row per line of the order, in the order of the lines: each new row is a
  \<^verbatim>\<open>DISPENSE\<close> of the line's product, its quantity is minus the absolute value of the
  line's quantity and its reason is \<^verbatim>\<open>Dispense for order\<close> followed by the order number;
  the order's row has status \<^verbatim>\<open>COMPLETED\<close> and \<open>completed_at\<close> set to the time of the
  call, and that row is what the call returns.
\<close>

theorem finalize_order_dispenses_each_line:
  assumes "finalize_order e order_id request d = (Inr r, d')"
  shows "\<exists>order new.
           find (\<lambda>r. o_id r = order_id) (orders d) = Some order \<and>
           inventory_movements d' = inventory_movements d @ new \<and>
           length new = length (filter (\<lambda>r. oi_order_id r = order_id) (order_items d)) \<and>
           (\<forall>j < length new.
              im_movement_type (new ! j) = ''DISPENSE'' \<and>
              im_product_id (new ! j) =
                oi_product_id (filter (\<lambda>r. oi_order_id r = order_id) (order_items d) ! j) \<and>
              im_quantity (new ! j) =
                - \<bar>oi_quantity (filter (\<lambda>r. oi_order_id r = order_id) (order_items d) ! j)\<bar> \<and>
              im_reason (new ! j) = Some (''Dispense for order '' @ o_order_number order)) \<and>
           orders d' = map (\<lambda>r. if o_id r = order_id
                                 then r\<lparr>o_status := ''COMPLETED'',
                                        o_completed_at := Some (utc_now e),
                                        o_updated_at := utc_now e\<rparr>
                                 else r) (orders d) \<and>
           r = OrderRow (order\<lparr>o_status := ''COMPLETED'', o_completed_at := Some (utc_now e),
                               o_updated_at := utc_now e\<rparr>)"
proof -
  let ?lines = "filter (\<lambda>r. oi_order_id r = order_id) (order_items d)"
  let ?items = "map (\<lambda>r. (oi_product_id r, oi_quantity r)) ?lines"
  let ?upd = "\<lambda>r. if o_id r = order_id
                   then r\<lparr>o_status := ''COMPLETED'', o_completed_at := Some (utc_now e),
                          o_updated_at := utc_now e\<rparr>
                   else r"
  from assms obtain order where
    o: "find (\<lambda>r. o_id r = order_id) (orders d) = Some order"
    by (auto simp: finalize_order_def db_conn_def Let_def
             split: option.splits prod.splits sum.splits if_splits)
  have oid: "o_id order = order_id" using find_Some_set[OF o] by simp
  from assms o obtain conn1 where
    di: "dispense_items e (parse_staff_id e request) (utc_now e) order 0 ?items d = (Inr (), conn1)"
    by (auto simp: finalize_order_def db_conn_def Let_def
             split: option.splits prod.splits sum.splits if_splits)
  let ?new = "dispense_rows e (parse_staff_id e request) (utc_now e) order 0 ?items"
  have c1: "conn1 = d\<lparr>inventory_movements := inventory_movements d @ ?new\<rparr>"
    using dispense_items_Inr[OF di] .
  have fm: "find (\<lambda>r. o_id r = order_id) (map ?upd (orders d)) = map_option ?upd (Some order)"
    using find_map_same_key[of o_id ?upd order_id "orders d"] o by simp
  from assms o di c1 fm oid have
    d': "d' = conn1\<lparr>orders := map ?upd (orders conn1)\<rparr>"
    and r: "r = OrderRow (?upd order)"
    by (auto simp: finalize_order_def db_conn_def Let_def
             split: option.splits prod.splits sum.splits if_splits)
  have nth: "\<forall>j < length ?new.
              im_movement_type (?new ! j) = ''DISPENSE'' \<and>
              im_product_id (?new ! j) = oi_product_id (?lines ! j) \<and>
              im_quantity (?new ! j) = - \<bar>oi_quantity (?lines ! j)\<bar> \<and>
              im_reason (?new ! j) = Some (''Dispense for order '' @ o_order_number order)"
    by (simp add: length_dispense_rows nth_dispense_rows)
  have "inventory_movements d' = inventory_movements d @ ?new"
    using d' c1 by simp
  moreover have "length ?new = length ?lines" by (simp add: length_dispense_rows)
  moreover have "orders d' = map ?upd (orders d)" using d' c1 by simp
  moreover have "r = OrderRow (order\<lparr>o_status := ''COMPLETED'',
                    o_completed_at := Some (utc_now e), o_updated_at := utc_now e\<rparr>)"
    using r oid by simp
  ultimately show ?thesis using o nth by blast
qed

lemmas ex_defs = ex_env_def ex_request_def ex_member_def ex_order_def ex_item_def ex_db_def

text \<open>A concrete run: order \<open>o1\<close> of the example database is finalized.\<close>

lemma ex_finalize_runs:
  "\<exists>r d'. finalize_order (ex_env ''u'' 0) ''o1'' (ex_request ''POST'' ''/orders/o1/finalize'') ex_db = (Inr r, d')"
  by (simp add: finalize_order_def db_conn_def require_verified_member_def parse_staff_id_def get_truthy_def insert_inventory_movement_def Let_def ex_defs)

theorem finalize_order_dispenses_each_line_witness:
  "\<exists>new. inventory_movements (snd (finalize_order (ex_env ''u'' 0) ''o1''
                (ex_request ''POST'' ''/orders/o1/finalize'') ex_db))
            = inventory_movements ex_db @ new \<and>
          map im_quantity new = [- 2, - (1/2)] \<and>
          map im_movement_type new = [''DISPENSE'', ''DISPENSE''] \<and>
          map im_reason new = [Some ''Dispense for order ORD-20251202000000'', Some ''Dispense for order ORD-20251202000000'']"
proof -
  obtain r d' where h: "finalize_order (ex_env ''u'' 0) ''o1''
      (ex_request ''POST'' ''/orders/o1/finalize'') ex_db = (Inr r, d')"
    using ex_finalize_runs by blast
  from finalize_order_dispenses_each_line[OF h] obtain order new where
    o: "find (\<lambda>r. o_id r = ''o1'') (orders ex_db) = Some order"
    and m: "inventory_movements d' = inventory_movements ex_db @ new"
    and l: "length new = length (filter (\<lambda>r. oi_order_id r = ''o1'') (order_items ex_db))"
    and n: "\<forall>j < length new.
              im_movement_type (new ! j) = ''DISPENSE'' \<and>
              im_product_id (new ! j) =
                oi_product_id (filter (\<lambda>r. oi_order_id r = ''o1'') (order_items ex_db) ! j) \<and>
              im_quantity (new ! j) =
                - \<bar>oi_quantity (filter (\<lambda>r. oi_order_id r = ''o1'') (order_items ex_db) ! j)\<bar> \<and>
              im_reason (new ! j) = Some (''Dispense for order '' @ o_order_number order)"
    by blast
  have l2: "length new = 2" using l by (simp add: ex_defs)
  then obtain a b where ab: "new = [a, b]"
    by (metis (no_types, opaque_lifting) One_nat_def Suc_1 length_0_conv length_Suc_conv)
  have on: "o_order_number order = ''ORD-20251202000000''" using o by (auto simp: ex_defs)
  from n[rule_format, of 0] n[rule_format, of 1] l2 ab on have "map im_quantity new = [- 2, - (1/2)] \<and>
          map im_movement_type new = [''DISPENSE'', ''DISPENSE''] \<and>
          map im_reason new = [Some ''Dispense for order ORD-20251202000000'', Some ''Dispense for order ORD-20251202000000'']"
    by (simp add: ex_defs)
  with m h show ?thesis by auto
qed






subsection \<open>The verified-member gate\<close>

lemma require_verified_member_rejects:
  "find (\<lambda>m. m_id m = member_id) (members d) = Some member \<Longrightarrow>
   m_status member \<noteq> ''VERIFIED'' \<Longrightarrow>
   require_verified_member d member_id =
     Inl (HTTPException 400 ''Member must be VERIFIED before orders can be created/finalized'')"
  by (simp add: require_verified_member_def)

text \<open>
  Claim C2, as stated, fails: the claim promises the eligibility error for every attempt
  on a member who is not verified, but \<open>create_order\<close> tests for an empty item list
  first. Member \<open>m2\<close> of the example database is rejected, and an order for \<open>m2\<close>
  with no items raises the 400 \<^verbatim>\<open>Order requires at least one item\<close> instead.
\<close>

theorem unverified_member_error_counterexample:
  "find (\<lambda>m. m_id m = ''m2'') (members ex_db) = Some (ex_member ''m2'' ''REJECTED'') \<and>
   m_status (ex_member ''m2'' ''REJECTED'') \<noteq> ''VERIFIED'' \<and>
   create_order (ex_env ''u'' 0) \<lparr>ci_member_id = ''m2'', ci_notes = None, ci_items = []\<rparr>
       (ex_request ''POST'' ''/orders'') ex_db
     = (Inl (HTTPException 400 ''Order requires at least one item''), ex_db) \<and>
   HTTPException 400 ''Order requires at least one item''
     \<noteq> HTTPException 400 ''Member must be VERIFIED before orders can be created/finalized''"
  by (simp add: create_order_def ex_defs)

text \<open>
  Claim C2, amended. Let the member exist with a status other than \<^verbatim>\<open>VERIFIED\<close>. Every
  \<open>create_order\<close> for that member and every \<open>finalize_order\<close> of an order of that
  member raises, and the database after the call is the database before it: no order,
  order-item or movement row is written. The exception is the 400
  \<^verbatim>\<open>Member must be VERIFIED ...\<close> whenever the call reaches the eligibility check, that
  is, when the order to create has at least one item, respectively when the order to
  finalize is not already completed; otherwise it is the error of the earlier check.
\<close>

theorem unverified_member_blocks_orders:
  assumes "find (\<lambda>m. m_id m = member_id) (members d) = Some member"
    and "m_status member \<noteq> ''VERIFIED''"
  shows "(ci_member_id payload = member_id \<longrightarrow>
            (\<exists>x. create_order e payload request d = (Inl x, d) \<and>
                 (ci_items payload \<noteq> [] \<longrightarrow>
                    x = HTTPException 400
                          ''Member must be VERIFIED before orders can be created/finalized''))) \<and>
         (\<forall>order. find (\<lambda>r. o_id r = order_id) (orders d) = Some order \<and>
                  o_member_id order = member_id \<longrightarrow>
            (\<exists>x. finalize_order e2 order_id request2 d = (Inl x, d) \<and>
                 (o_status order \<noteq> ''COMPLETED'' \<longrightarrow>
                    x = HTTPException 400
                          ''Member must be VERIFIED before orders can be created/finalized'')))"
proof (intro conjI impI allI)
  assume "ci_member_id payload = member_id"
  with require_verified_member_rejects[OF assms]
  show "\<exists>x. create_order e payload request d = (Inl x, d) \<and>
            (ci_items payload \<noteq> [] \<longrightarrow>
               x = HTTPException 400
                     ''Member must be VERIFIED before orders can be created/finalized'')"
    by (simp add: create_order_def db_conn_def Let_def)
next
  fix order
  assume "find (\<lambda>r. o_id r = order_id) (orders d) = Some order \<and> o_member_id order = member_id"
  with require_verified_member_rejects[OF assms]
  show "\<exists>x. finalize_order e2 order_id request2 d = (Inl x, d) \<and>
            (o_status order \<noteq> ''COMPLETED'' \<longrightarrow>
               x = HTTPException 400
                     ''Member must be VERIFIED before orders can be created/finalized'')"
    by (simp add: finalize_order_def db_conn_def Let_def)
qed

theorem unverified_member_blocks_orders_witness:
  "create_order (ex_env ''u'' 0)
       \<lparr>ci_member_id = ''m2'', ci_notes = None,
        ci_items = [\<lparr>xi_product_id = ''p1'', xi_quantity = 1, xi_unit_price = 100\<rparr>]\<rparr>
       (ex_request ''POST'' ''/orders'') ex_db
     = (Inl (HTTPException 400
              ''Member must be VERIFIED before orders can be created/finalized''), ex_db) \<and>
   finalize_order (ex_env ''w'' 0) ''o2'' (ex_request ''POST'' ''/orders/o2/finalize'') ex_db
     = (Inl (HTTPException 400
              ''Member must be VERIFIED before orders can be created/finalized''), ex_db)"
proof -
  have m: "find (\<lambda>m. m_id m = ''m2'') (members ex_db) = Some (ex_member ''m2'' ''REJECTED'')"
    by (simp add: ex_defs)
  have s: "m_status (ex_member ''m2'' ''REJECTED'') \<noteq> ''VERIFIED''"
    by (simp add: ex_defs)
  have o: "find (\<lambda>r. o_id r = ''o2'') (orders ex_db)
             = Some (ex_order ''o2'' ''m2'' ''ORD-20251202000001'')"
    by (simp add: ex_defs)
  have om: "o_member_id (ex_order ''o2'' ''m2'' ''ORD-20251202000001'') = ''m2''"
    and os: "o_status (ex_order ''o2'' ''m2'' ''ORD-20251202000001'') \<noteq> ''COMPLETED''"
    by (simp_all add: ex_defs)
  note t = unverified_member_blocks_orders[OF m s,
      of "\<lparr>ci_member_id = ''m2'', ci_notes = None,
           ci_items = [\<lparr>xi_product_id = ''p1'', xi_quantity = 1, xi_unit_price = 100\<rparr>]\<rparr>"
         "ex_env ''u'' 0" "ex_request ''POST'' ''/orders''" "''o2''"
         "ex_env ''w'' 0" "ex_request ''POST'' ''/orders/o2/finalize''"]
  from t have c: "\<exists>x. create_order (ex_env ''u'' 0)
       \<lparr>ci_member_id = ''m2'', ci_notes = None,
        ci_items = [\<lparr>xi_product_id = ''p1'', xi_quantity = 1, xi_unit_price = 100\<rparr>]\<rparr>
       (ex_request ''POST'' ''/orders'') ex_db = (Inl x, ex_db) \<and>
       x = HTTPException 400 ''Member must be VERIFIED before orders can be created/finalized''"
    by simp
  from t o om os have f: "\<exists>x. finalize_order (ex_env ''w'' 0) ''o2''
       (ex_request ''POST'' ''/orders/o2/finalize'') ex_db = (Inl x, ex_db) \<and>
       x = HTTPException 400 ''Member must be VERIFIED before orders can be created/finalized''"
    by simp
  from c f show ?thesis by simp
qed

subsection \<open>Inventory movements\<close>

lemma not_in_ids_find:
  "k \<notin> set (map key xs) \<Longrightarrow> find (\<lambda>r. key r = k) xs = None"
  by (induction xs) auto

lemma find_append_new:
  "k \<notin> set (map key xs) \<Longrightarrow> key r = k \<Longrightarrow> find (\<lambda>r. key r = k) (xs @ [r]) = Some r"
  by (induction xs) auto










subsection \<open>Finalizing without looking at the catalogue or the stock\<close>




subsection \<open>What each layer leaves alone\<close>

lemma insert_items_frame:
  "insert_items e order_id now k items conn = (res, conn1) \<Longrightarrow>
   conn1 = conn\<lparr>order_items := order_items conn1\<rparr>"
proof (induction items arbitrary: k conn)
  case Nil
  then show ?case by auto
next
  case (Cons item items)
  show ?case
  proof (cases "uuid4 e k \<in> set (map oi_id (order_items conn))")
    case True
    with Cons.prems show ?thesis by (auto simp: insert_order_item_def)
  next
    case False
    let ?c = "conn\<lparr>order_items := order_items conn @
        [\<lparr>oi_id = uuid4 e k, oi_order_id = order_id, oi_product_id = xi_product_id item,
          oi_quantity = xi_quantity item, oi_unit_price = xi_unit_price item,
          oi_created_at = now\<rparr>]\<rparr>"
    from False Cons.prems have "insert_items e order_id now (Suc k) items ?c = (res, conn1)"
      by (simp add: insert_order_item_def)
    from Cons.IH[OF this] show ?thesis by (cases conn1) (simp)
  qed
qed

lemma dispense_items_frame:
  "dispense_items e s now order k items conn = (res, conn1) \<Longrightarrow>
   conn1 = conn\<lparr>inventory_movements := inventory_movements conn1\<rparr>"
proof (induction items arbitrary: k conn)
  case Nil
  then show ?case by auto
next
  case (Cons item items)
  show ?case
  proof (cases "uuid4 e k \<in> set (map im_id (inventory_movements conn))")
    case True
    with Cons.prems show ?thesis by (auto simp: insert_inventory_movement_def)
  next
    case False
    let ?c = "conn\<lparr>inventory_movements := inventory_movements conn @
      [\<lparr>im_id = uuid4 e k, im_product_id = fst item, im_movement_type = ''DISPENSE'',
        im_quantity = - \<bar>snd item\<bar>,
        im_reason = Some (''Dispense for order '' @ o_order_number order),
        im_recorded_by_staff_id = s,
        im_occurred_at = now, im_created_at = now\<rparr>]\<rparr>"
    from False Cons.prems have "dispense_items e s now order (Suc k) items ?c = (res, conn1)"
      by (simp add: insert_inventory_movement_def)
    from Cons.IH[OF this] show ?thesis by (cases conn1) (simp)
  qed
qed

lemma respond_snd: "snd (respond handler d) = snd (handler d)"
  by (simp add: respond_def split: prod.split sum.split error.split)

lemma audit_write_middleware_frame:
  "\<exists>evs. snd (audit_write_middleware ea request call_next d) =
           (snd (call_next d))\<lparr>audit_events := audit_events (snd (call_next d)) @ evs\<rparr>"
proof (cases "call_next d")
  case (Pair out d1)
  show ?thesis
  proof (cases out)
    case (Inl x)
    with Pair have "snd (audit_write_middleware ea request call_next d) =
           (snd (call_next d))\<lparr>audit_events := audit_events (snd (call_next d)) @ []\<rparr>"
      by (simp add: audit_write_middleware_def)
    then show ?thesis by (rule exI)
  next
    case (Inr response)
    show ?thesis
    proof (cases "rq_method request \<in> WRITE_METHODS \<and>
                  uuid4 ea 0 \<notin> set (map ae_id (audit_events d1))")
      case True
      with Pair Inr show ?thesis
        by (simp add: audit_write_middleware_def db_conn_def insert_audit_event_def Let_def)
           (rule exI, rule refl)
    next
      case False
      with Pair Inr have "snd (audit_write_middleware ea request call_next d) =
           (snd (call_next d))\<lparr>audit_events := audit_events (snd (call_next d)) @ []\<rparr>"
        by (auto simp: audit_write_middleware_def db_conn_def insert_audit_event_def Let_def)
      then show ?thesis by (rule exI)
    qed
  qed
qed


lemma app_frame:
  "\<exists>evs. snd (app e ea request c d) =
           (snd (endpoint e request c d))\<lparr>audit_events :=
              audit_events (snd (endpoint e request c d)) @ evs\<rparr>"
  unfolding app_def using audit_write_middleware_frame[of ea request "respond (endpoint e request c)" d]
  by (simp add: respond_snd)

subsection \<open>What each handler writes\<close>

lemma create_member_effect:
  "snd (create_member e p d) = d \<or>
   (uuid4 e 0 \<notin> set (map m_id (members d)) \<and>
    snd (create_member e p d) =
      d\<lparr>members := members d @
          [\<lparr>m_id = uuid4 e 0, m_member_number = mi_member_number p,
            m_first_name = mi_first_name p, m_last_name = mi_last_name p,
            m_date_of_birth = mi_date_of_birth p, m_phone = mi_phone p,
            m_email = mi_email p, m_status = ''PENDING'',
            m_created_at = utc_now e, m_updated_at = utc_now e\<rparr>]\<rparr>)"
  by (simp add: create_member_def db_conn_def insert_member_def Let_def split: option.split)

lemma update_member_effect:
  "snd (update_member e i p d) = d \<or>
   (\<exists>f. snd (update_member e i p d) = d\<lparr>members := map f (members d)\<rparr> \<and>
        (\<forall>m. m_id (f m) = m_id m \<and> m_status (f m) = m_status m))"
proof -
  let ?f = "\<lambda>m. if m_id m = i
                 then m\<lparr>m_member_number := mi_member_number p,
                        m_first_name := mi_first_name p,
                        m_last_name := mi_last_name p,
                        m_date_of_birth := mi_date_of_birth p,
                        m_phone := mi_phone p,
                        m_email := mi_email p,
                        m_updated_at := utc_now e\<rparr>
                 else m"
  have p: "\<forall>m. m_id (?f m) = m_id m \<and> m_status (?f m) = m_status m" by simp
  have "snd (update_member e i p d) = d \<or>
        snd (update_member e i p d) = d\<lparr>members := map ?f (members d)\<rparr>"
    by (simp add: update_member_def db_conn_def Let_def split: option.split)
  with p show ?thesis by blast
qed

lemma delete_member_effect:
  "snd (delete_member i d) = d\<lparr>members := filter (\<lambda>m. m_id m \<noteq> i) (members d)\<rparr>"
  by (simp add: delete_member_def db_conn_def)

lemma verify_member_effect:
  "snd (verify_member e i p request d) = d \<or>
   snd (verify_member e i p request d) =
      d\<lparr>member_verifications := member_verifications (snd (verify_member e i p request d)),
        members := map (\<lambda>m. if m_id m = i
                             then m\<lparr>m_status := vi_outcome p, m_updated_at := utc_now e\<rparr>
                             else m) (members d)\<rparr>"
  by (simp add: verify_member_def db_conn_def insert_member_verification_def Let_def
           split: option.split)

lemma create_item_suppliers_effect:
  "\<exists>xs. snd (create_item_suppliers e p d) = d\<lparr>suppliers := xs\<rparr>"
proof -
  have "snd (create_item_suppliers e p d) = d\<lparr>suppliers := suppliers (snd (create_item_suppliers e p d))\<rparr>"
    by (simp add: create_item_suppliers_def db_conn_def insert_supplier_def Let_def
             split: option.split)
  then show ?thesis by (rule exI)
qed

lemma update_item_suppliers_effect:
  "\<exists>xs. snd (update_item_suppliers e i p d) = d\<lparr>suppliers := xs\<rparr>"
proof -
  have "snd (update_item_suppliers e i p d) = d\<lparr>suppliers := suppliers (snd (update_item_suppliers e i p d))\<rparr>"
    by (simp add: update_item_suppliers_def db_conn_def Let_def split: option.split)
  then show ?thesis by (rule exI)
qed

lemma delete_item_suppliers_effect:
  "\<exists>xs. snd (delete_item_suppliers i d) = d\<lparr>suppliers := xs\<rparr>"
proof -
  have "snd (delete_item_suppliers i d) = d\<lparr>suppliers := suppliers (snd (delete_item_suppliers i d))\<rparr>"
    by (simp add: delete_item_suppliers_def db_conn_def)
  then show ?thesis by (rule exI)
qed

lemma create_item_products_effect:
  "\<exists>xs. snd (create_item_products e p d) = d\<lparr>products := xs\<rparr>"
proof -
  have "snd (create_item_products e p d) = d\<lparr>products := products (snd (create_item_products e p d))\<rparr>"
    by (simp add: create_item_products_def db_conn_def insert_product_def Let_def
             split: option.split)
  then show ?thesis by (rule exI)
qed

lemma update_item_products_effect:
  "\<exists>xs. snd (update_item_products e i p d) = d\<lparr>products := xs\<rparr>"
proof -
  have "snd (update_item_products e i p d) = d\<lparr>products := products (snd (update_item_products e i p d))\<rparr>"
    by (simp add: update_item_products_def db_conn_def Let_def split: option.split)
  then show ?thesis by (rule exI)
qed

lemma delete_item_products_effect:
  "\<exists>xs. snd (delete_item_products i d) = d\<lparr>products := xs\<rparr>"
proof -
  have "snd (delete_item_products i d) = d\<lparr>products := products (snd (delete_item_products i d))\<rparr>"
    by (simp add: delete_item_products_def db_conn_def)
  then show ?thesis by (rule exI)
qed

lemma create_inventory_movement_effect:
  "\<exists>xs. snd (create_inventory_movement e kind p request d) = d\<lparr>inventory_movements := xs\<rparr>"
proof -
  have "snd (create_inventory_movement e kind p request d) =
          d\<lparr>inventory_movements :=
               inventory_movements (snd (create_inventory_movement e kind p request d))\<rparr>"
    by (simp add: create_inventory_movement_def db_conn_def insert_inventory_movement_def Let_def
             split: option.split)
  then show ?thesis by (rule exI)
qed

lemma create_member_keeps:
  "orders (snd (create_member e p d)) = orders d"
  "audit_events (snd (create_member e p d)) = audit_events d"
  using create_member_effect[of e p d] by auto

lemma update_member_keeps:
  "orders (snd (update_member e i p d)) = orders d"
  "audit_events (snd (update_member e i p d)) = audit_events d"
  using update_member_effect[of e i p d] by auto

lemma delete_member_keeps:
  "orders (snd (delete_member i d)) = orders d"
  "audit_events (snd (delete_member i d)) = audit_events d"
  using delete_member_effect[of i d] by auto

lemma verify_member_effect_ex:
  "snd (verify_member e i p request d) = d \<or>
   (\<exists>vs. snd (verify_member e i p request d) =
      d\<lparr>member_verifications := vs,
        members := map (\<lambda>m. if m_id m = i
                             then m\<lparr>m_status := vi_outcome p, m_updated_at := utc_now e\<rparr>
                             else m) (members d)\<rparr>)"
  using verify_member_effect[of e i p request d] by (elim disjE) (simp, rule disjI2, erule exI)

lemma verify_member_keeps:
  "orders (snd (verify_member e i p request d)) = orders d"
  "audit_events (snd (verify_member e i p request d)) = audit_events d"
  using verify_member_effect_ex[of e i p request d] by auto

lemma create_item_suppliers_keeps:
  "orders (snd (create_item_suppliers e p d)) = orders d"
  "members (snd (create_item_suppliers e p d)) = members d"
  "audit_events (snd (create_item_suppliers e p d)) = audit_events d"
  using create_item_suppliers_effect[of e p d] by auto

lemma update_item_suppliers_keeps:
  "orders (snd (update_item_suppliers e i p d)) = orders d"
  "members (snd (update_item_suppliers e i p d)) = members d"
  "audit_events (snd (update_item_suppliers e i p d)) = audit_events d"
  using update_item_suppliers_effect[of e i p d] by auto

lemma delete_item_suppliers_keeps:
  "orders (snd (delete_item_suppliers i d)) = orders d"
  "members (snd (delete_item_suppliers i d)) = members d"
  "audit_events (snd (delete_item_suppliers i d)) = audit_events d"
  using delete_item_suppliers_effect[of i d] by auto

lemma create_item_products_keeps:
  "orders (snd (create_item_products e p d)) = orders d"
  "members (snd (create_item_products e p d)) = members d"
  "audit_events (snd (create_item_products e p d)) = audit_events d"
  using create_item_products_effect[of e p d] by auto

lemma update_item_products_keeps:
  "orders (snd (update_item_products e i p d)) = orders d"
  "members (snd (update_item_products e i p d)) = members d"
  "audit_events (snd (update_item_products e i p d)) = audit_events d"
  using update_item_products_effect[of e i p d] by auto

lemma delete_item_products_keeps:
  "orders (snd (delete_item_products i d)) = orders d"
  "members (snd (delete_item_products i d)) = members d"
  "audit_events (snd (delete_item_products i d)) = audit_events d"
  using delete_item_products_effect[of i d] by auto

lemma create_inventory_movement_keeps:
  "orders (snd (create_inventory_movement e kind p request d)) = orders d"
  "members (snd (create_inventory_movement e kind p request d)) = members d"
  "audit_events (snd (create_inventory_movement e kind p request d)) = audit_events d"
  using create_inventory_movement_effect[of e kind p request d] by auto

lemma create_order_effect:
  "snd (create_order e p request d) = d \<or>
   (uuid4 e 0 \<notin> set (map o_id (orders d)) \<and>
    ''ORD-'' @ strftime_YmdHMS (clock e) \<notin> set (map o_order_number (orders d)) \<and>
    snd (create_order e p request d) =
      d\<lparr>orders := orders d @
          [\<lparr>o_id = uuid4 e 0, o_member_id = ci_member_id p,
            o_order_number = ''ORD-'' @ strftime_YmdHMS (clock e), o_status = ''PLACED'',
            o_ordered_by_staff_id = parse_staff_id e request,
            o_ordered_at = utc_now e, o_completed_at = None,
            o_notes = ci_notes p,
            o_created_at = utc_now e, o_updated_at = utc_now e\<rparr>],
        order_items := order_items (snd (create_order e p request d))\<rparr>)"
proof -
  let ?row = "\<lparr>o_id = uuid4 e 0, o_member_id = ci_member_id p,
            o_order_number = ''ORD-'' @ strftime_YmdHMS (clock e), o_status = ''PLACED'',
            o_ordered_by_staff_id = parse_staff_id e request,
            o_ordered_at = utc_now e, o_completed_at = None,
            o_notes = ci_notes p,
            o_created_at = utc_now e, o_updated_at = utc_now e\<rparr>"
  let ?c1 = "d\<lparr>orders := orders d @ [?row]\<rparr>"
  obtain res c2 where
    ii: "insert_items e (uuid4 e 0) (utc_now e) 1 (ci_items p) ?c1 = (res, c2)"
    by (cases "insert_items e (uuid4 e 0) (utc_now e) 1 (ci_items p) ?c1")
  have fr: "c2 = d\<lparr>orders := orders d @ [?row], order_items := order_items c2\<rparr>"
    using insert_items_frame[OF ii] by simp
  show ?thesis
  proof (cases "ci_items p \<noteq> [] \<and> require_verified_member d (ci_member_id p) = Inr () \<and>
                uuid4 e 0 \<notin> set (map o_id (orders d)) \<and>
                ''ORD-'' @ strftime_YmdHMS (clock e) \<notin> set (map o_order_number (orders d)) \<and>
                (\<exists>u. res = Inr u) \<and> find (\<lambda>r. o_id r = uuid4 e 0) (orders c2) \<noteq> None")
    case True
    then have "snd (create_order e p request d) = c2"
      using ii by (auto simp: create_order_def db_conn_def Let_def insert_order_def)
    with fr True show ?thesis by simp
  next
    case False
    then have "snd (create_order e p request d) = d"
      using ii
      by (cases "require_verified_member d (ci_member_id p)"; cases res)
         (auto simp: create_order_def db_conn_def Let_def insert_order_def)
    then show ?thesis by simp
  qed
qed

lemma finalize_order_effect:
  "snd (finalize_order e i request d) = d \<or>
   (\<exists>order. find (\<lambda>r. o_id r = i) (orders d) = Some order \<and>
            o_status order \<noteq> ''COMPLETED'' \<and>
            snd (finalize_order e i request d) =
              d\<lparr>inventory_movements := inventory_movements (snd (finalize_order e i request d)),
                orders := map (\<lambda>r. if o_id r = i
                                    then r\<lparr>o_status := ''COMPLETED'',
                                           o_completed_at := Some (utc_now e),
                                           o_updated_at := utc_now e\<rparr>
                                    else r) (orders d)\<rparr>)"
proof (cases "find (\<lambda>r. o_id r = i) (orders d)")
  case None
  then have "snd (finalize_order e i request d) = d"
    by (simp add: finalize_order_def db_conn_def Let_def)
  then show ?thesis by simp
next
  case (Some order)
  let ?items = "map (\<lambda>r. (oi_product_id r, oi_quantity r))
                  (filter (\<lambda>r. oi_order_id r = i) (order_items d))"
  let ?upd = "\<lambda>r. if o_id r = i
                   then r\<lparr>o_status := ''COMPLETED'', o_completed_at := Some (utc_now e),
                          o_updated_at := utc_now e\<rparr>
                   else r"
  obtain res c1 where
    di: "dispense_items e (parse_staff_id e request) (utc_now e) order 0 ?items d = (res, c1)"
    by (cases "dispense_items e (parse_staff_id e request) (utc_now e) order 0 ?items d")
  have fr: "c1 = d\<lparr>inventory_movements := inventory_movements c1\<rparr>"
    using dispense_items_frame[OF di] .
  have oc1: "orders c1 = orders d" using fr by (metis db.select_convs(6) db.surjective db.update_convs(5))
  have fm: "find (\<lambda>r. o_id r = i) (map ?upd (orders d)) = Some (?upd order)"
    using find_map_same_key[of o_id ?upd i "orders d"] Some by simp
  show ?thesis
  proof (cases "o_status order \<noteq> ''COMPLETED'' \<and>
                require_verified_member d (o_member_id order) = Inr () \<and>
                ?items \<noteq> [] \<and> (\<exists>u. res = Inr u)")
    case True
    then have "snd (finalize_order e i request d) = c1\<lparr>orders := map ?upd (orders c1)\<rparr>"
      using Some di fm oc1
      by (auto simp: finalize_order_def db_conn_def Let_def)
    with fr oc1 have "snd (finalize_order e i request d) =
              d\<lparr>inventory_movements := inventory_movements (snd (finalize_order e i request d)),
                orders := map ?upd (orders d)\<rparr>"
      by (cases c1) simp
    with Some True show ?thesis by simp
  next
    case False
    then have "snd (finalize_order e i request d) = d"
      using Some di
      by (cases "require_verified_member d (o_member_id order)"; cases res)
         (auto simp: finalize_order_def db_conn_def Let_def)
    then show ?thesis by simp
  qed
qed

lemma create_order_effect_ex:
  "snd (create_order e p request d) = d \<or>
   (uuid4 e 0 \<notin> set (map o_id (orders d)) \<and>
    ''ORD-'' @ strftime_YmdHMS (clock e) \<notin> set (map o_order_number (orders d)) \<and>
    (\<exists>items. snd (create_order e p request d) =
      d\<lparr>orders := orders d @
          [\<lparr>o_id = uuid4 e 0, o_member_id = ci_member_id p,
            o_order_number = ''ORD-'' @ strftime_YmdHMS (clock e), o_status = ''PLACED'',
            o_ordered_by_staff_id = parse_staff_id e request,
            o_ordered_at = utc_now e, o_completed_at = None,
            o_notes = ci_notes p,
            o_created_at = utc_now e, o_updated_at = utc_now e\<rparr>],
        order_items := items\<rparr>))"
  using create_order_effect[of e p request d]
  by (elim disjE conjE) (simp, intro disjI2 conjI, assumption, assumption, erule exI)

lemma finalize_order_effect_ex:
  "snd (finalize_order e i request d) = d \<or>
   (\<exists>order ms. find (\<lambda>r. o_id r = i) (orders d) = Some order \<and>
            o_status order \<noteq> ''COMPLETED'' \<and>
            snd (finalize_order e i request d) =
              d\<lparr>inventory_movements := ms,
                orders := map (\<lambda>r. if o_id r = i
                                    then r\<lparr>o_status := ''COMPLETED'',
                                           o_completed_at := Some (utc_now e),
                                           o_updated_at := utc_now e\<rparr>
                                    else r) (orders d)\<rparr>)"
  using finalize_order_effect[of e i request d]
  by (elim disjE exE conjE) (simp, intro disjI2 exI conjI, assumption, assumption, assumption)

lemma create_order_keeps:
  "members (snd (create_order e p request d)) = members d"
  "audit_events (snd (create_order e p request d)) = audit_events d"
  using create_order_effect_ex[of e p request d] by auto

lemma finalize_order_keeps:
  "members (snd (finalize_order e i request d)) = members d"
  "audit_events (snd (finalize_order e i request d)) = audit_events d"
  using finalize_order_effect_ex[of e i request d] by auto


lemma endpoint_members:
  "(\<forall>p. c \<noteq> CreateMember p) \<Longrightarrow> (\<forall>i p. c \<noteq> UpdateMember i p) \<Longrightarrow>
   (\<forall>i. c \<noteq> DeleteMember i) \<Longrightarrow> (\<forall>i p. c \<noteq> VerifyMember i p) \<Longrightarrow>
   members (snd (endpoint e request c d)) = members d"
  by (cases c)
     (simp_all add: staff_login_def inventory_receive_def inventory_adjust_def
        inventory_waste_def create_item_suppliers_keeps update_item_suppliers_keeps
        delete_item_suppliers_keeps create_item_products_keeps update_item_products_keeps
        delete_item_products_keeps create_inventory_movement_keeps create_order_keeps
        finalize_order_keeps)

lemma endpoint_orders:
  "(\<forall>p. c \<noteq> CreateOrder p) \<Longrightarrow> (\<forall>i. c \<noteq> FinalizeOrder i) \<Longrightarrow>
   orders (snd (endpoint e request c d)) = orders d"
  by (cases c)
     (simp_all add: staff_login_def inventory_receive_def inventory_adjust_def
        inventory_waste_def create_member_keeps update_member_keeps delete_member_keeps
        verify_member_keeps create_item_suppliers_keeps update_item_suppliers_keeps
        delete_item_suppliers_keeps create_item_products_keeps update_item_products_keeps
        delete_item_products_keeps create_inventory_movement_keeps)

lemma app_members: "members (snd (app e ea request c d)) = members (snd (endpoint e request c d))"
  using app_frame[of e ea request c d] by auto

lemma app_orders: "orders (snd (app e ea request c d)) = orders (snd (endpoint e request c d))"
  using app_frame[of e ea request c d] by auto

subsection \<open>The audit trail\<close>



subsection \<open>Orders in reachable databases\<close>

lemma distinct_key_unique:
  "distinct (map key xs) \<Longrightarrow> x \<in> set xs \<Longrightarrow> y \<in> set xs \<Longrightarrow> key x = key y \<Longrightarrow> x = y"
  by (metis distinct_map inj_onD)

lemma map_o_id_completed:
  "map o_id (map (\<lambda>r. if o_id r = i
                        then r\<lparr>o_status := s, o_completed_at := c, o_updated_at := u\<rparr>
                        else r) xs) = map o_id xs"
  by (induction xs) auto

lemma map_o_order_number_completed:
  "map o_order_number (map (\<lambda>r. if o_id r = i
                        then r\<lparr>o_status := s, o_completed_at := c, o_updated_at := u\<rparr>
                        else r) xs) = map o_order_number xs"
  by (induction xs) auto

lemma endpoint_orders_cases:
  "orders (snd (endpoint e request c d)) = orders d \<or>
   (\<exists>row. orders (snd (endpoint e request c d)) = orders d @ [row] \<and>
          o_id row \<notin> set (map o_id (orders d)) \<and>
          o_order_number row \<notin> set (map o_order_number (orders d)) \<and>
          o_status row = ''PLACED'' \<and> o_completed_at row = None) \<or>
   (\<exists>i now order.
          find (\<lambda>r. o_id r = i) (orders d) = Some order \<and>
          o_status order \<noteq> ''COMPLETED'' \<and>
          orders (snd (endpoint e request c d)) =
            map (\<lambda>r. if o_id r = i
                      then r\<lparr>o_status := ''COMPLETED'', o_completed_at := Some now,
                             o_updated_at := now\<rparr>
                      else r) (orders d))"
proof -
  consider (co) p where "c = CreateOrder p" | (fo) i where "c = FinalizeOrder i"
    | (other) "(\<forall>p. c \<noteq> CreateOrder p) \<and> (\<forall>i. c \<noteq> FinalizeOrder i)"
    by (cases c) auto
  then show ?thesis
  proof cases
    case co
    let ?row = "\<lparr>o_id = uuid4 e 0, o_member_id = ci_member_id p,
            o_order_number = ''ORD-'' @ strftime_YmdHMS (clock e), o_status = ''PLACED'',
            o_ordered_by_staff_id = parse_staff_id e request,
            o_ordered_at = utc_now e, o_completed_at = None,
            o_notes = ci_notes p,
            o_created_at = utc_now e, o_updated_at = utc_now e\<rparr>"
    have "orders (snd (endpoint e request c d)) = orders d \<or>
          (orders (snd (endpoint e request c d)) = orders d @ [?row] \<and>
           o_id ?row \<notin> set (map o_id (orders d)) \<and>
           o_order_number ?row \<notin> set (map o_order_number (orders d)))"
      using create_order_effect_ex[of e p request d] co by auto
    then show ?thesis
    proof
      assume "orders (snd (endpoint e request c d)) = orders d"
      then show ?thesis by (rule disjI1)
    next
      assume a: "orders (snd (endpoint e request c d)) = orders d @ [?row] \<and>
           o_id ?row \<notin> set (map o_id (orders d)) \<and>
           o_order_number ?row \<notin> set (map o_order_number (orders d))"
      have "orders (snd (endpoint e request c d)) = orders d @ [?row] \<and>
          o_id ?row \<notin> set (map o_id (orders d)) \<and>
          o_order_number ?row \<notin> set (map o_order_number (orders d)) \<and>
          o_status ?row = ''PLACED'' \<and> o_completed_at ?row = None"
        using a by simp
      then show ?thesis by (intro disjI2 disjI1 exI[of _ ?row])
    qed
  next
    case fo
    from finalize_order_effect_ex[of e i request d] fo
    have "orders (snd (endpoint e request c d)) = orders d \<or>
          (\<exists>order. find (\<lambda>r. o_id r = i) (orders d) = Some order \<and>
            o_status order \<noteq> ''COMPLETED'' \<and>
            orders (snd (endpoint e request c d)) =
              map (\<lambda>r. if o_id r = i
                        then r\<lparr>o_status := ''COMPLETED'', o_completed_at := Some (utc_now e),
                               o_updated_at := utc_now e\<rparr>
                        else r) (orders d))"
      by auto
    then show ?thesis
    proof
      assume "orders (snd (endpoint e request c d)) = orders d"
      then show ?thesis by (rule disjI1)
    next
      assume "\<exists>order. find (\<lambda>r. o_id r = i) (orders d) = Some order \<and>
            o_status order \<noteq> ''COMPLETED'' \<and>
            orders (snd (endpoint e request c d)) =
              map (\<lambda>r. if o_id r = i
                        then r\<lparr>o_status := ''COMPLETED'', o_completed_at := Some (utc_now e),
                               o_updated_at := utc_now e\<rparr>
                        else r) (orders d)"
      then obtain order where "find (\<lambda>r. o_id r = i) (orders d) = Some order \<and>
            o_status order \<noteq> ''COMPLETED'' \<and>
            orders (snd (endpoint e request c d)) =
              map (\<lambda>r. if o_id r = i
                        then r\<lparr>o_status := ''COMPLETED'', o_completed_at := Some (utc_now e),
                               o_updated_at := utc_now e\<rparr>
                        else r) (orders d)" ..
      then show ?thesis
        by (intro disjI2 exI[of _ i] exI[of _ "utc_now e"] exI[of _ order])
    qed
  next
    case other
    then have "orders (snd (endpoint e request c d)) = orders d"
      using endpoint_orders[of c e request d] by blast
    then show ?thesis by (rule disjI1)
  qed
qed

lemma reachable_orders:
  "reachable d \<Longrightarrow>
   distinct (map o_id (orders d)) \<and> distinct (map o_order_number (orders d)) \<and>
   (\<forall>r \<in> set (orders d).
      (o_status r = ''PLACED'' \<and> o_completed_at r = None) \<or>
      (o_status r = ''COMPLETED'' \<and> o_completed_at r \<noteq> None))"
proof (induction rule: reachable.induct)
  case reachable_init
  show ?case by (simp add: init_db_def)
next
  case (reachable_step d request c e ea)
  let ?os = "orders (snd (endpoint e request c d))"
  have eq: "orders (snd (app e ea request c d)) = ?os" by (rule app_orders)
  from reachable_step.IH have d1: "distinct (map o_id (orders d))"
    and d2: "distinct (map o_order_number (orders d))"
    and d3: "\<forall>r \<in> set (orders d).
      (o_status r = ''PLACED'' \<and> o_completed_at r = None) \<or>
      (o_status r = ''COMPLETED'' \<and> o_completed_at r \<noteq> None)" by simp_all
  have "distinct (map o_id ?os) \<and> distinct (map o_order_number ?os) \<and>
   (\<forall>r \<in> set ?os.
      (o_status r = ''PLACED'' \<and> o_completed_at r = None) \<or>
      (o_status r = ''COMPLETED'' \<and> o_completed_at r \<noteq> None))"
    using endpoint_orders_cases[of e request c d]
  proof (elim disjE exE conjE)
    assume "?os = orders d"
    with d1 d2 d3 show ?thesis by simp
  next
    fix row
    assume "?os = orders d @ [row]" "o_id row \<notin> set (map o_id (orders d))"
      "o_order_number row \<notin> set (map o_order_number (orders d))"
      "o_status row = ''PLACED''" "o_completed_at row = None"
    with d1 d2 d3 show ?thesis by auto
  next
    fix i now order
    assume a: "?os = map (\<lambda>r. if o_id r = i
                      then r\<lparr>o_status := ''COMPLETED'', o_completed_at := Some now,
                             o_updated_at := now\<rparr>
                      else r) (orders d)"
    have "\<forall>r \<in> set ?os.
      (o_status r = ''PLACED'' \<and> o_completed_at r = None) \<or>
      (o_status r = ''COMPLETED'' \<and> o_completed_at r \<noteq> None)"
      unfolding a using d3 by auto
    with d1 d2 show ?thesis
      unfolding a map_o_id_completed map_o_order_number_completed by simp
  qed
  then show ?case unfolding eq .
qed

lemmas run_defs = app_def audit_write_middleware_def respond_def db_conn_def Let_def
  body_as_text_def WRITE_METHODS_def parse_staff_id_def get_truthy_def
  insert_audit_event_def insert_member_def insert_member_verification_def insert_order_def
  insert_order_item_def insert_inventory_movement_def
  create_member_def verify_member_def create_order_def finalize_order_def
  require_verified_member_def valid_MemberVerifyIn_def valid_OrderCreateIn_def
  valid_OrderItemIn_def strftime_YmdHMS_def zfill2_def zfill4_def digit_def
  ex_env_def ex_request_def init_db_def

lemma ex_d4_reachable: "reachable ex_d4"
proof -
  have r1: "reachable ex_d1"
    unfolding ex_d1_def
    by (rule reachable_step[OF reachable_init]) (simp add: routed_def ex_request_def)
  have r2: "reachable ex_d2"
    unfolding ex_d2_def
    by (rule reachable_step[OF r1]) (simp add: routed_def ex_request_def)
  have r3: "reachable ex_d3"
    unfolding ex_d3_def
    by (rule reachable_step[OF r2]) (simp add: routed_def ex_request_def)
  show ?thesis
    unfolding ex_d4_def
    by (rule reachable_step[OF r3]) (simp add: routed_def ex_request_def)
qed

lemma ex_d4_orders:
  "orders ex_d4 =
     [\<lparr>o_id = ''o'', o_member_id = ''m'', o_order_number = ''ORD-20260101000000'',
       o_status = ''COMPLETED'', o_ordered_by_staff_id = ''staff-123'',
       o_ordered_at = ''2026-01-01T00:00:00+00:00'',
       o_completed_at = Some ''2026-01-01T00:00:00+00:00'', o_notes = None,
       o_created_at = ''2026-01-01T00:00:00+00:00'',
       o_updated_at = ''2026-01-01T00:00:00+00:00''\<rparr>]"
  by (simp add: ex_d4_def ex_d3_def ex_d2_def ex_d1_def run_defs)

text \<open>
  Claim C8. In every database the application can reach, every order is \<^verbatim>\<open>PLACED\<close> or
  \<^verbatim>\<open>COMPLETED\<close> and has \<open>completed_at\<close> set exactly when it is \<^verbatim>\<open>COMPLETED\<close>. Whatever
  request is served next, every order is still there under its identifier, and a
  \<^verbatim>\<open>COMPLETED\<close> order is there unchanged: no request takes it back to \<^verbatim>\<open>PLACED\<close> or
  clears or moves its \<open>completed_at\<close>.
\<close>

theorem order_status_moves_forward:
  assumes "reachable d"
  shows "(\<forall>r \<in> set (orders d).
            (o_status r = ''PLACED'' \<or> o_status r = ''COMPLETED'') \<and>
            ((o_completed_at r \<noteq> None) = (o_status r = ''COMPLETED''))) \<and>
         (\<forall>r \<in> set (orders d).
            (\<exists>r' \<in> set (orders (snd (app e ea request c d))). o_id r' = o_id r) \<and>
            (\<forall>r' \<in> set (orders (snd (app e ea request c d))).
               o_id r' = o_id r \<and> o_status r = ''COMPLETED'' \<longrightarrow> r' = r))"
proof -
  let ?os = "orders (snd (endpoint e request c d))"
  have eq: "orders (snd (app e ea request c d)) = ?os" by (rule app_orders)
  from reachable_orders[OF assms] have d1: "distinct (map o_id (orders d))"
    and d3: "\<forall>r \<in> set (orders d).
      (o_status r = ''PLACED'' \<and> o_completed_at r = None) \<or>
      (o_status r = ''COMPLETED'' \<and> o_completed_at r \<noteq> None)" by simp_all
  have part1: "\<forall>r \<in> set (orders d).
            (o_status r = ''PLACED'' \<or> o_status r = ''COMPLETED'') \<and>
            ((o_completed_at r \<noteq> None) = (o_status r = ''COMPLETED''))"
    using d3 by auto
  have part2: "\<forall>r \<in> set (orders d).
            (\<exists>r' \<in> set ?os. o_id r' = o_id r) \<and>
            (\<forall>r' \<in> set ?os. o_id r' = o_id r \<and> o_status r = ''COMPLETED'' \<longrightarrow> r' = r)"
    using endpoint_orders_cases[of e request c d]
  proof (elim disjE exE conjE)
    assume a: "?os = orders d"
    show ?thesis unfolding a using distinct_key_unique[OF d1] by blast
  next
    fix row
    assume a: "?os = orders d @ [row]" and f: "o_id row \<notin> set (map o_id (orders d))"
    show ?thesis
    proof (intro ballI conjI impI)
      fix r assume r: "r \<in> set (orders d)"
      then show "\<exists>r' \<in> set ?os. o_id r' = o_id r" unfolding a by auto
    next
      fix r r' assume r: "r \<in> set (orders d)" and r': "r' \<in> set ?os"
        and k: "o_id r' = o_id r \<and> o_status r = ''COMPLETED''"
      from r f k have "r' \<noteq> row" by auto
      with r' have "r' \<in> set (orders d)" unfolding a by simp
      with r k show "r' = r" using distinct_key_unique[OF d1] by blast
    qed
  next
    fix i now order
    assume fnd: "find (\<lambda>r. o_id r = i) (orders d) = Some order"
      and st: "o_status order \<noteq> ''COMPLETED''"
      and a: "?os = map (\<lambda>r. if o_id r = i
                      then r\<lparr>o_status := ''COMPLETED'', o_completed_at := Some now,
                             o_updated_at := now\<rparr>
                      else r) (orders d)"
    let ?upd = "\<lambda>r. if o_id r = i
                      then r\<lparr>o_status := ''COMPLETED'', o_completed_at := Some now,
                             o_updated_at := now\<rparr>
                      else r"
    have oin: "order \<in> set (orders d)" and oid: "o_id order = i"
      using find_Some_set[OF fnd] by simp_all
    show ?thesis
    proof (intro ballI conjI impI)
      fix r assume r: "r \<in> set (orders d)"
      then have "?upd r \<in> set ?os" unfolding a by simp
      moreover have "o_id (?upd r) = o_id r" by simp
      ultimately show "\<exists>r' \<in> set ?os. o_id r' = o_id r" by blast
    next
      fix r r' assume r: "r \<in> set (orders d)" and r': "r' \<in> set ?os"
        and k: "o_id r' = o_id r \<and> o_status r = ''COMPLETED''"
      from r' obtain r0 where r0: "r0 \<in> set (orders d)" and e0: "r' = ?upd r0"
        unfolding a by auto
      have "o_id r0 = o_id r" using k e0 by (simp split: if_splits)
      with r r0 have same: "r0 = r" using distinct_key_unique[OF d1] by blast
      have "o_id r \<noteq> i"
      proof
        assume "o_id r = i"
        with oid r oin have "r = order" using distinct_key_unique[OF d1] by blast
        with st k show False by simp
      qed
      with e0 same show "r' = r" by simp
    qed
  qed
  show ?thesis using part1 part2 unfolding eq by (intro conjI)
qed

theorem order_status_moves_forward_witness:
  "reachable ex_d4 \<and>
   (\<exists>r. orders ex_d4 = [r] \<and> o_id r = ''o'' \<and> o_status r = ''COMPLETED'' \<and>
        o_completed_at r \<noteq> None \<and>
        (\<exists>r' \<in> set (orders (snd (app (ex_env ''x'' 0) (ex_env ''a5'' 0)
                   (ex_request ''POST'' ''/orders/o/finalize'') (FinalizeOrder ''o'') ex_d4))).
            r' = r))"
proof -
  obtain r where r: "orders ex_d4 = [r]" and i: "o_id r = ''o''"
    and s: "o_status r = ''COMPLETED''"
    using ex_d4_orders by simp
  have rin: "r \<in> set (orders ex_d4)" using r by simp
  note t = order_status_moves_forward[OF ex_d4_reachable, of "ex_env ''x'' 0" "ex_env ''a5'' 0"
             "ex_request ''POST'' ''/orders/o/finalize''" "FinalizeOrder ''o''"]
  from t rin s have c: "o_completed_at r \<noteq> None" by blast
  from t rin obtain r' where
    r': "r' \<in> set (orders (snd (app (ex_env ''x'' 0) (ex_env ''a5'' 0)
                   (ex_request ''POST'' ''/orders/o/finalize'') (FinalizeOrder ''o'') ex_d4)))"
    and e: "o_id r' = o_id r" by blast
  from t rin r' e s have "r' = r" by blast
  with r' have "\<exists>r' \<in> set (orders (snd (app (ex_env ''x'' 0) (ex_env ''a5'' 0)
                   (ex_request ''POST'' ''/orders/o/finalize'') (FinalizeOrder ''o'') ex_d4))).
            r' = r" by blast
  with r i s c have "orders ex_d4 = [r] \<and> o_id r = ''o'' \<and> o_status r = ''COMPLETED'' \<and>
        o_completed_at r \<noteq> None \<and>
        (\<exists>r' \<in> set (orders (snd (app (ex_env ''x'' 0) (ex_env ''a5'' 0)
                   (ex_request ''POST'' ''/orders/o/finalize'') (FinalizeOrder ''o'') ex_d4))).
            r' = r)" by (intro conjI)
  then have "\<exists>r. orders ex_d4 = [r] \<and> o_id r = ''o'' \<and> o_status r = ''COMPLETED'' \<and>
        o_completed_at r \<noteq> None \<and>
        (\<exists>r' \<in> set (orders (snd (app (ex_env ''x'' 0) (ex_env ''a5'' 0)
                   (ex_request ''POST'' ''/orders/o/finalize'') (FinalizeOrder ''o'') ex_d4))).
            r' = r)" by (rule exI)
  with ex_d4_reachable show ?thesis by (intro conjI)
qed

subsection \<open>Order numbers\<close>

lemma length_strftime_YmdHMS: "length (strftime_YmdHMS t) = 14"
  by (simp add: strftime_YmdHMS_def zfill2_def zfill4_def)

lemma create_order_Inr:
  assumes "create_order e p request d = (Inr r, d')"
  shows "\<exists>items.
           r = OrderCreated
                 \<lparr>o_id = uuid4 e 0, o_member_id = ci_member_id p,
                  o_order_number = ''ORD-'' @ strftime_YmdHMS (clock e), o_status = ''PLACED'',
                  o_ordered_by_staff_id = parse_staff_id e request,
                  o_ordered_at = utc_now e, o_completed_at = None,
                  o_notes = ci_notes p,
                  o_created_at = utc_now e, o_updated_at = utc_now e\<rparr> items \<and>
           orders d' = orders d @
                 [\<lparr>o_id = uuid4 e 0, o_member_id = ci_member_id p,
                  o_order_number = ''ORD-'' @ strftime_YmdHMS (clock e), o_status = ''PLACED'',
                  o_ordered_by_staff_id = parse_staff_id e request,
                  o_ordered_at = utc_now e, o_completed_at = None,
                  o_notes = ci_notes p,
                  o_created_at = utc_now e, o_updated_at = utc_now e\<rparr>]"
proof -
  let ?row = "\<lparr>o_id = uuid4 e 0, o_member_id = ci_member_id p,
            o_order_number = ''ORD-'' @ strftime_YmdHMS (clock e), o_status = ''PLACED'',
            o_ordered_by_staff_id = parse_staff_id e request,
            o_ordered_at = utc_now e, o_completed_at = None,
            o_notes = ci_notes p,
            o_created_at = utc_now e, o_updated_at = utc_now e\<rparr>"
  let ?c1 = "d\<lparr>orders := orders d @ [?row]\<rparr>"
  obtain res c2 where
    ii: "insert_items e (uuid4 e 0) (utc_now e) 1 (ci_items p) ?c1 = (res, c2)"
    by (cases "insert_items e (uuid4 e 0) (utc_now e) 1 (ci_items p) ?c1")
  have fr: "c2 = d\<lparr>orders := orders d @ [?row], order_items := order_items c2\<rparr>"
    using insert_items_frame[OF ii] by simp
  have oc2: "orders c2 = orders d @ [?row]" by (subst fr) simp
  have c1: "ci_items p \<noteq> []"
  proof
    assume "ci_items p = []"
    then have "create_order e p request d =
                 (Inl (HTTPException 400 ''Order requires at least one item''), d)"
      by (simp add: create_order_def)
    with assms show False by simp
  qed
  have c2: "require_verified_member d (ci_member_id p) = Inr ()"
  proof (cases "require_verified_member d (ci_member_id p)")
    case (Inl x)
    with c1 have "create_order e p request d = (Inl x, d)"
      by (simp add: create_order_def db_conn_def Let_def)
    with assms show ?thesis by simp
  next
    case (Inr u)
    then show ?thesis by simp
  qed
  have fresh: "uuid4 e 0 \<notin> set (map o_id (orders d)) \<and>
               ''ORD-'' @ strftime_YmdHMS (clock e) \<notin> set (map o_order_number (orders d))"
  proof (rule ccontr)
    assume "\<not> (uuid4 e 0 \<notin> set (map o_id (orders d)) \<and>
               ''ORD-'' @ strftime_YmdHMS (clock e) \<notin> set (map o_order_number (orders d)))"
    with c1 c2 have "create_order e p request d = (Inl IntegrityError, d)"
      by (simp add: create_order_def db_conn_def Let_def insert_order_def)
    with assms show False by simp
  qed
  have io: "insert_order ?row d = (Inr (), ?c1)"
    using fresh by (simp add: insert_order_def)
  have c4: "res = Inr ()"
  proof (cases res)
    case (Inl x)
    have "create_order e p request d = (Inl x, d)"
      unfolding create_order_def db_conn_def Let_def
      using c1 c2 io ii Inl by simp
    with assms show ?thesis by simp
  next
    case (Inr u)
    then show ?thesis by simp
  qed
  have fnd: "find (\<lambda>r. o_id r = uuid4 e 0) (orders c2) = Some ?row"
    unfolding oc2 using find_append_new[of "uuid4 e 0" o_id "orders d" ?row] fresh by simp
  have run: "create_order e p request d =
          (Inr (OrderCreated ?row (filter (\<lambda>r. oi_order_id r = uuid4 e 0) (order_items c2))), c2)"
    unfolding create_order_def db_conn_def Let_def
    using c1 c2 io ii c4 fnd by simp
  from run[unfolded assms] have "r = OrderCreated ?row (filter (\<lambda>r. oi_order_id r = uuid4 e 0) (order_items c2))"
    and "d' = c2" by simp_all
  with oc2 have "r = OrderCreated ?row (filter (\<lambda>r. oi_order_id r = uuid4 e 0) (order_items c2)) \<and>
      orders d' = orders d @ [?row]" by simp
  then show ?thesis
    apply -
    apply (rule exI)
    apply assumption
    done
qed

text \<open>
  Claim C6, as stated, fails: the order number holds nothing but the clock reading to the
  second. Two orders for the verified member \<open>m1\<close>, placed within the same second by
  calls that share no identifier, get the same number; the first is stored and the second
  is refused by the \<^verbatim>\<open>UNIQUE\<close> constraint.
\<close>

theorem order_number_collision_counterexample:
  "clock (ex_env ''a'' 0) \<noteq> clock (ex_env ''b'' 7) \<and>
   uuid4 (ex_env ''a'' 0) 0 \<noteq> uuid4 (ex_env ''b'' 7) 0 \<and>
   uuid4 (ex_env ''a'' 0) 1 \<noteq> uuid4 (ex_env ''b'' 7) 1 \<and>
   ''ORD-'' @ strftime_YmdHMS (clock (ex_env ''a'' 0))
     = ''ORD-'' @ strftime_YmdHMS (clock (ex_env ''b'' 7)) \<and>
   \<not> isl (fst (create_order (ex_env ''a'' 0)
       \<lparr>ci_member_id = ''m1'', ci_notes = None,
        ci_items = [\<lparr>xi_product_id = ''p1'', xi_quantity = 1, xi_unit_price = 100\<rparr>]\<rparr>
       (ex_request ''POST'' ''/orders'') ex_db)) \<and>
   fst (create_order (ex_env ''b'' 7)
       \<lparr>ci_member_id = ''m1'', ci_notes = None,
        ci_items = [\<lparr>xi_product_id = ''p1'', xi_quantity = 1, xi_unit_price = 100\<rparr>]\<rparr>
       (ex_request ''POST'' ''/orders'')
       (snd (create_order (ex_env ''a'' 0)
          \<lparr>ci_member_id = ''m1'', ci_notes = None,
           ci_items = [\<lparr>xi_product_id = ''p1'', xi_quantity = 1, xi_unit_price = 100\<rparr>]\<rparr>
          (ex_request ''POST'' ''/orders'') ex_db)))
     = Inl IntegrityError"
  by (simp add: create_order_def db_conn_def Let_def require_verified_member_def
        insert_order_def insert_order_item_def parse_staff_id_def get_truthy_def
        strftime_YmdHMS_def zfill2_def zfill4_def digit_def ex_defs)

text \<open>
  Claim C6, amended. The order number of a created order is \<^verbatim>\<open>ORD-\<close> followed by the
  fourteen digits of the creation time, year to second; it is a function of that time
  alone (the microsecond does not enter, and no identifier does). The orders of a
  reachable database have pairwise distinct order numbers.
\<close>

theorem order_number_from_clock:
  "(create_order e payload request d = (Inr r, d') \<longrightarrow>
      (\<exists>order items. r = OrderCreated order items \<and> order \<in> set (orders d') \<and>
          o_order_number order = ''ORD-'' @ strftime_YmdHMS (clock e))) \<and>
   strftime_YmdHMS (t\<lparr>dt_microsecond := us\<rparr>) = strftime_YmdHMS t \<and>
   length (''ORD-'' @ strftime_YmdHMS t) = 18 \<and>
   (reachable d \<longrightarrow> distinct (map o_order_number (orders d)))"
proof (intro conjI impI)
  assume a: "create_order e payload request d = (Inr r, d')"
  let ?row = "\<lparr>o_id = uuid4 e 0, o_member_id = ci_member_id payload,
            o_order_number = ''ORD-'' @ strftime_YmdHMS (clock e), o_status = ''PLACED'',
            o_ordered_by_staff_id = parse_staff_id e request,
            o_ordered_at = utc_now e, o_completed_at = None,
            o_notes = ci_notes payload,
            o_created_at = utc_now e, o_updated_at = utc_now e\<rparr>"
  from create_order_Inr[OF a] obtain items where
    r: "r = OrderCreated ?row items" and os: "orders d' = orders d @ [?row]" by blast
  have "r = OrderCreated ?row items \<and> ?row \<in> set (orders d') \<and>
        o_order_number ?row = ''ORD-'' @ strftime_YmdHMS (clock e)"
    using r os by simp
  then show "\<exists>order items. r = OrderCreated order items \<and> order \<in> set (orders d') \<and>
          o_order_number order = ''ORD-'' @ strftime_YmdHMS (clock e)"
    by (intro exI[of _ ?row] exI[of _ items])
next
  show "strftime_YmdHMS (t\<lparr>dt_microsecond := us\<rparr>) = strftime_YmdHMS t"
    by (simp add: strftime_YmdHMS_def)
next
  show "length (''ORD-'' @ strftime_YmdHMS t) = 18"
    by (simp add: length_strftime_YmdHMS)
next
  assume "reachable d"
  from reachable_orders[OF this] show "distinct (map o_order_number (orders d))" by simp
qed

theorem order_number_from_clock_witness:
  "(\<exists>order items.
      fst (create_order (ex_env ''a'' 0)
             \<lparr>ci_member_id = ''m1'', ci_notes = None,
              ci_items = [\<lparr>xi_product_id = ''p1'', xi_quantity = 1, xi_unit_price = 100\<rparr>]\<rparr>
             (ex_request ''POST'' ''/orders'') ex_db) = Inr (OrderCreated order items) \<and>
      o_order_number order = ''ORD-20260101000000'') \<and>
   distinct (map o_order_number (orders ex_d4))"
proof -
  let ?p = "\<lparr>ci_member_id = ''m1'', ci_notes = None,
              ci_items = [\<lparr>xi_product_id = ''p1'', xi_quantity = 1, xi_unit_price = 100\<rparr>]\<rparr>"
  have "\<not> isl (fst (create_order (ex_env ''a'' 0) ?p (ex_request ''POST'' ''/orders'') ex_db))"
    by (simp add: create_order_def db_conn_def Let_def require_verified_member_def
        insert_order_def insert_order_item_def parse_staff_id_def get_truthy_def
        strftime_YmdHMS_def zfill2_def zfill4_def digit_def ex_defs)
  then obtain r d' where
    run: "create_order (ex_env ''a'' 0) ?p (ex_request ''POST'' ''/orders'') ex_db = (Inr r, d')"
    by (cases "create_order (ex_env ''a'' 0) ?p (ex_request ''POST'' ''/orders'') ex_db";
        cases "fst (create_order (ex_env ''a'' 0) ?p (ex_request ''POST'' ''/orders'') ex_db)")
       auto
  note t = order_number_from_clock[where e = "ex_env ''a'' 0" and payload = ?p
             and request = "ex_request ''POST'' ''/orders''" and d = ex_db and r = r and d' = d'
             and t = "clock (ex_env ''a'' 0)" and us = 0]
  note t4 = order_number_from_clock[where e = "ex_env ''a'' 0" and payload = ?p
             and request = "ex_request ''POST'' ''/orders''" and d = ex_d4 and r = r and d' = d'
             and t = "clock (ex_env ''a'' 0)" and us = 0]
  have n: "''ORD-'' @ strftime_YmdHMS (clock (ex_env ''a'' 0)) = ''ORD-20260101000000''"
    by (simp add: strftime_YmdHMS_def zfill2_def zfill4_def digit_def ex_env_def)
  from t run obtain order items where
    "r = OrderCreated order items"
    "o_order_number order = ''ORD-'' @ strftime_YmdHMS (clock (ex_env ''a'' 0))" by blast
  with run n have "fst (create_order (ex_env ''a'' 0) ?p (ex_request ''POST'' ''/orders'') ex_db)
      = Inr (OrderCreated order items) \<and> o_order_number order = ''ORD-20260101000000''"
    by simp
  then have a: "\<exists>order items.
      fst (create_order (ex_env ''a'' 0) ?p (ex_request ''POST'' ''/orders'') ex_db)
        = Inr (OrderCreated order items) \<and>
      o_order_number order = ''ORD-20260101000000''"
    apply -
    apply (rule exI)+
    apply assumption
    done
  from t4 ex_d4_reachable have b: "distinct (map o_order_number (orders ex_d4))" by blast
  from a b show ?thesis by (intro conjI)
qed

subsection \<open>Members in reachable databases\<close>

lemma endpoint_members_cases:
  "members (snd (endpoint e request c d)) = members d \<or>
   (\<exists>row. members (snd (endpoint e request c d)) = members d @ [row] \<and>
          m_id row \<notin> set (map m_id (members d)) \<and> m_status row = ''PENDING'') \<or>
   (\<exists>f. members (snd (endpoint e request c d)) = map f (members d) \<and>
        (\<forall>m. m_id (f m) = m_id m \<and> m_status (f m) = m_status m)) \<or>
   (\<exists>i. members (snd (endpoint e request c d)) = filter (\<lambda>m. m_id m \<noteq> i) (members d)) \<or>
   (\<exists>i p now. c = VerifyMember i p \<and>
        members (snd (endpoint e request c d)) =
          map (\<lambda>m. if m_id m = i then m\<lparr>m_status := vi_outcome p, m_updated_at := now\<rparr> else m)
            (members d))"
proof -
  consider (cm) p where "c = CreateMember p" | (um) i p where "c = UpdateMember i p"
    | (dm) i where "c = DeleteMember i" | (vm) i p where "c = VerifyMember i p"
    | (other) "(\<forall>p. c \<noteq> CreateMember p) \<and> (\<forall>i p. c \<noteq> UpdateMember i p) \<and>
               (\<forall>i. c \<noteq> DeleteMember i) \<and> (\<forall>i p. c \<noteq> VerifyMember i p)"
    by (cases c) auto
  then show ?thesis
  proof cases
    case cm
    let ?row = "\<lparr>m_id = uuid4 e 0, m_member_number = mi_member_number p,
            m_first_name = mi_first_name p, m_last_name = mi_last_name p,
            m_date_of_birth = mi_date_of_birth p, m_phone = mi_phone p,
            m_email = mi_email p, m_status = ''PENDING'',
            m_created_at = utc_now e, m_updated_at = utc_now e\<rparr>"
    from create_member_effect[of e p d] cm
    have "members (snd (endpoint e request c d)) = members d \<or>
          (members (snd (endpoint e request c d)) = members d @ [?row] \<and>
           m_id ?row \<notin> set (map m_id (members d)) \<and> m_status ?row = ''PENDING'')"
      by auto
    then show ?thesis
    proof
      assume "members (snd (endpoint e request c d)) = members d"
      then show ?thesis by (rule disjI1)
    next
      assume "members (snd (endpoint e request c d)) = members d @ [?row] \<and>
           m_id ?row \<notin> set (map m_id (members d)) \<and> m_status ?row = ''PENDING''"
      then show ?thesis by (intro disjI2 disjI1 exI[of _ ?row])
    qed
  next
    case um
    from update_member_effect[of e i p d] um
    have "members (snd (endpoint e request c d)) = members d \<or>
          (\<exists>f. members (snd (endpoint e request c d)) = map f (members d) \<and>
            (\<forall>m. m_id (f m) = m_id m \<and> m_status (f m) = m_status m))"
      by auto
    then show ?thesis by blast
  next
    case dm
    from delete_member_effect[of i d] dm
    have "members (snd (endpoint e request c d)) = filter (\<lambda>m. m_id m \<noteq> i) (members d)"
      by simp
    then show ?thesis by blast
  next
    case vm
    from verify_member_effect_ex[of e i p request d] vm
    have "members (snd (endpoint e request c d)) = members d \<or>
          members (snd (endpoint e request c d)) =
            map (\<lambda>m. if m_id m = i
                      then m\<lparr>m_status := vi_outcome p, m_updated_at := utc_now e\<rparr> else m)
              (members d)"
      by auto
    then show ?thesis
    proof
      assume "members (snd (endpoint e request c d)) = members d"
      then show ?thesis by (rule disjI1)
    next
      assume "members (snd (endpoint e request c d)) =
            map (\<lambda>m. if m_id m = i
                      then m\<lparr>m_status := vi_outcome p, m_updated_at := utc_now e\<rparr> else m)
              (members d)"
      with vm have "c = VerifyMember i p \<and> members (snd (endpoint e request c d)) =
            map (\<lambda>m. if m_id m = i
                      then m\<lparr>m_status := vi_outcome p, m_updated_at := utc_now e\<rparr> else m)
              (members d)" by simp
      then show ?thesis
        by (intro disjI2 exI[of _ i] exI[of _ p] exI[of _ "utc_now e"])
    qed
  next
    case other
    then have "members (snd (endpoint e request c d)) = members d"
      using endpoint_members[of c e request d] by blast
    then show ?thesis by (rule disjI1)
  qed
qed

lemma map_m_id_status:
  "map m_id (map (\<lambda>m. if m_id m = i then m\<lparr>m_status := s, m_updated_at := u\<rparr> else m) xs)
     = map m_id xs"
  by (induction xs) auto

lemma map_key_preserved: "(\<And>x. key (f x) = key x) \<Longrightarrow> map key (map f xs) = map key xs"
  by (induction xs) auto

lemma reachable_members: "reachable d \<Longrightarrow> distinct (map m_id (members d))"
proof (induction rule: reachable.induct)
  case reachable_init
  show ?case by (simp add: init_db_def)
next
  case (reachable_step d request c e ea)
  let ?ms = "members (snd (endpoint e request c d))"
  have eq: "members (snd (app e ea request c d)) = ?ms" by (rule app_members)
  note d1 = reachable_step.IH
  have "distinct (map m_id ?ms)"
    using endpoint_members_cases[of e request c d]
  proof (elim disjE exE conjE)
    assume "?ms = members d"
    with d1 show ?thesis by simp
  next
    fix row assume "?ms = members d @ [row]" "m_id row \<notin> set (map m_id (members d))"
    with d1 show ?thesis by simp
  next
    fix f assume a: "?ms = map f (members d)"
      and k: "\<forall>m. m_id (f m) = m_id m \<and> m_status (f m) = m_status m"
    from k have "map m_id (map f (members d)) = map m_id (members d)"
      by (intro map_key_preserved) simp
    then show ?thesis unfolding a using d1 by (simp only:)
  next
    fix i assume a: "?ms = filter (\<lambda>m. m_id m \<noteq> i) (members d)"
    show ?thesis unfolding a using d1 by (rule distinct_map_filter)
  next
    fix i p now
    assume a: "?ms = map (\<lambda>m. if m_id m = i
                      then m\<lparr>m_status := vi_outcome p, m_updated_at := now\<rparr> else m)
                (members d)"
    show ?thesis unfolding a map_m_id_status using d1 .
  qed
  then show ?case unfolding eq .
qed

lemma create_member_Inr:
  assumes "create_member e p d = (Inr r, d1)"
  shows "\<exists>row. r = MemberRow row \<and> m_status row = ''PENDING'' \<and> row \<in> set (members d1)"
proof -
  let ?row = "\<lparr>m_id = uuid4 e 0, m_member_number = mi_member_number p,
            m_first_name = mi_first_name p, m_last_name = mi_last_name p,
            m_date_of_birth = mi_date_of_birth p, m_phone = mi_phone p,
            m_email = mi_email p, m_status = ''PENDING'',
            m_created_at = utc_now e, m_updated_at = utc_now e\<rparr>"
  have fresh: "uuid4 e 0 \<notin> set (map m_id (members d)) \<and>
               mi_member_number p \<notin> set (map m_member_number (members d))"
  proof (rule ccontr)
    assume "\<not> (uuid4 e 0 \<notin> set (map m_id (members d)) \<and>
               mi_member_number p \<notin> set (map m_member_number (members d)))"
    then have "create_member e p d = (Inl IntegrityError, d)"
      by (simp add: create_member_def db_conn_def Let_def insert_member_def)
    with assms show False by simp
  qed
  have fnd: "find (\<lambda>m. m_id m = uuid4 e 0) (members d @ [?row]) = Some ?row"
    using find_append_new[of "uuid4 e 0" m_id "members d" ?row] fresh by simp
  have run: "create_member e p d = (Inr (MemberRow ?row), d\<lparr>members := members d @ [?row]\<rparr>)"
    using fresh fnd by (simp add: create_member_def db_conn_def Let_def insert_member_def)
  from run[unfolded assms] have "r = MemberRow ?row" and "d1 = d\<lparr>members := members d @ [?row]\<rparr>"
    by simp_all
  then have "r = MemberRow ?row \<and> m_status ?row = ''PENDING'' \<and> ?row \<in> set (members d1)"
    by simp
  then show ?thesis
    apply -
    apply (rule exI)
    apply assumption
    done
qed

text \<open>
  Claim C7. \<open>create_member\<close> returns and stores a member whose status is \<^verbatim>\<open>PENDING\<close>.
  From a reachable database, whatever request is served next: a member that was not
  there before has status \<^verbatim>\<open>PENDING\<close>; a member that was there and whose status is now
  different has been the target of \<open>verify_member\<close>, and the new status is the outcome
  of that decision; in particular the \<^verbatim>\<open>PUT\<close> of \<open>update_member\<close> leaves every status as
  it was.
\<close>

theorem member_status_only_by_decision:
  assumes "reachable d"
  shows "(create_member e0 p0 d = (Inr r, d1) \<longrightarrow>
            (\<exists>row. r = MemberRow row \<and> m_status row = ''PENDING'' \<and> row \<in> set (members d1))) \<and>
         (\<forall>m' \<in> set (members (snd (app e ea request c d))).
            m_id m' \<notin> set (map m_id (members d)) \<longrightarrow> m_status m' = ''PENDING'') \<and>
         (\<forall>m \<in> set (members d). \<forall>m' \<in> set (members (snd (app e ea request c d))).
            m_id m' = m_id m \<and> m_status m' \<noteq> m_status m \<longrightarrow>
            (\<exists>p. c = VerifyMember (m_id m) p \<and> m_status m' = vi_outcome p)) \<and>
         (\<forall>i p. c = UpdateMember i p \<longrightarrow>
            (\<forall>m \<in> set (members d). \<forall>m' \<in> set (members (snd (app e ea request c d))).
               m_id m' = m_id m \<longrightarrow> m_status m' = m_status m))"
proof -
  let ?ms = "members (snd (endpoint e request c d))"
  have eq: "members (snd (app e ea request c d)) = ?ms" by (rule app_members)
  note d1 = reachable_members[OF assms]
  have part0: "create_member e0 p0 d = (Inr r, d1) \<longrightarrow>
            (\<exists>row. r = MemberRow row \<and> m_status row = ''PENDING'' \<and> row \<in> set (members d1))"
    using create_member_Inr[of e0 p0 d r d1] by blast
  have part1: "\<forall>m' \<in> set ?ms.
            m_id m' \<notin> set (map m_id (members d)) \<longrightarrow> m_status m' = ''PENDING''"
    using endpoint_members_cases[of e request c d]
  proof (elim disjE exE conjE)
    assume a: "?ms = members d"
    show ?thesis unfolding a by simp
  next
    fix row assume a: "?ms = members d @ [row]" and "m_status row = ''PENDING''"
    then show ?thesis by auto
  next
    fix f assume a: "?ms = map f (members d)"
      and k: "\<forall>m. m_id (f m) = m_id m \<and> m_status (f m) = m_status m"
    show ?thesis unfolding a using k by auto
  next
    fix i assume a: "?ms = filter (\<lambda>m. m_id m \<noteq> i) (members d)"
    show ?thesis unfolding a by simp
  next
    fix i p now
    assume a: "?ms = map (\<lambda>m. if m_id m = i
                      then m\<lparr>m_status := vi_outcome p, m_updated_at := now\<rparr> else m)
                (members d)"
    show ?thesis unfolding a by auto
  qed
  have part2: "\<forall>m \<in> set (members d). \<forall>m' \<in> set ?ms.
            m_id m' = m_id m \<and> m_status m' \<noteq> m_status m \<longrightarrow>
            (\<exists>p. c = VerifyMember (m_id m) p \<and> m_status m' = vi_outcome p)"
    using endpoint_members_cases[of e request c d]
  proof (elim disjE exE conjE)
    assume a: "?ms = members d"
    show ?thesis unfolding a using distinct_key_unique[OF d1] by blast
  next
    fix row assume a: "?ms = members d @ [row]"
      and f: "m_id row \<notin> set (map m_id (members d))"
    show ?thesis
    proof (intro ballI impI)
      fix m m' assume m: "m \<in> set (members d)" and m': "m' \<in> set ?ms"
        and k: "m_id m' = m_id m \<and> m_status m' \<noteq> m_status m"
      from m f k have "m' \<noteq> row" by auto
      with m' have "m' \<in> set (members d)" unfolding a by simp
      with m k have "m' = m" using distinct_key_unique[OF d1] by blast
      with k show "\<exists>p. c = VerifyMember (m_id m) p \<and> m_status m' = vi_outcome p" by simp
    qed
  next
    fix f assume a: "?ms = map f (members d)"
      and k: "\<forall>m. m_id (f m) = m_id m \<and> m_status (f m) = m_status m"
    show ?thesis
    proof (intro ballI impI)
      fix m m' assume m: "m \<in> set (members d)" and m': "m' \<in> set ?ms"
        and h: "m_id m' = m_id m \<and> m_status m' \<noteq> m_status m"
      from m' obtain m0 where m0: "m0 \<in> set (members d)" and e0: "m' = f m0"
        unfolding a by auto
      from h e0 k have "m_id m0 = m_id m" by simp
      with m m0 have "m0 = m" using distinct_key_unique[OF d1] by blast
      with e0 k h show "\<exists>p. c = VerifyMember (m_id m) p \<and> m_status m' = vi_outcome p" by simp
    qed
  next
    fix i assume a: "?ms = filter (\<lambda>m. m_id m \<noteq> i) (members d)"
    show ?thesis
    proof (intro ballI impI)
      fix m m' assume m: "m \<in> set (members d)" and m': "m' \<in> set ?ms"
        and h: "m_id m' = m_id m \<and> m_status m' \<noteq> m_status m"
      from m' have "m' \<in> set (members d)" unfolding a by simp
      with m h have "m' = m" using distinct_key_unique[OF d1] by blast
      with h show "\<exists>p. c = VerifyMember (m_id m) p \<and> m_status m' = vi_outcome p" by simp
    qed
  next
    fix i p now
    assume cv: "c = VerifyMember i p"
      and a: "?ms = map (\<lambda>m. if m_id m = i
                      then m\<lparr>m_status := vi_outcome p, m_updated_at := now\<rparr> else m)
                (members d)"
    let ?upd = "\<lambda>m. if m_id m = i
                      then m\<lparr>m_status := vi_outcome p, m_updated_at := now\<rparr> else m"
    show ?thesis
    proof (intro ballI impI)
      fix m m' assume m: "m \<in> set (members d)" and m': "m' \<in> set ?ms"
        and h: "m_id m' = m_id m \<and> m_status m' \<noteq> m_status m"
      from m' obtain m0 where m0: "m0 \<in> set (members d)" and e0: "m' = ?upd m0"
        unfolding a by auto
      have "m_id m0 = m_id m" using h e0 by (simp split: if_splits)
      with m m0 have same: "m0 = m" using distinct_key_unique[OF d1] by blast
      have "m_id m = i"
      proof (rule ccontr)
        assume "m_id m \<noteq> i"
        with e0 same have "m' = m" by simp
        with h show False by simp
      qed
      with e0 same cv have "c = VerifyMember (m_id m) p \<and> m_status m' = vi_outcome p" by simp
      then show "\<exists>p. c = VerifyMember (m_id m) p \<and> m_status m' = vi_outcome p" by blast
    qed
  qed
  have part3: "\<forall>i p. c = UpdateMember i p \<longrightarrow>
            (\<forall>m \<in> set (members d). \<forall>m' \<in> set ?ms.
               m_id m' = m_id m \<longrightarrow> m_status m' = m_status m)"
  proof (intro allI impI ballI)
    fix i p m m'
    assume cu: "c = UpdateMember i p" and m: "m \<in> set (members d)" and m': "m' \<in> set ?ms"
      and k: "m_id m' = m_id m"
    show "m_status m' = m_status m"
    proof (rule ccontr)
      assume "m_status m' \<noteq> m_status m"
      with part2 m m' k obtain q where "c = VerifyMember (m_id m) q" by blast
      with cu show False by simp
    qed
  qed
  show ?thesis using part0 part1 part2 part3 unfolding eq by (intro conjI)
qed

lemma ex_d1_reachable: "reachable ex_d1"
  unfolding ex_d1_def
  by (rule reachable_step[OF reachable_init]) (simp add: routed_def ex_request_def)

lemma ex_d1_members: "map m_id (members ex_d1) = [''m''] \<and> map m_status (members ex_d1) = [''PENDING'']"
  by (simp add: ex_d1_def run_defs)

theorem member_status_only_by_decision_witness:
  "reachable ex_d1 \<and>
   map m_status (members ex_d1) = [''PENDING''] \<and>
   map m_status (members (snd (app (ex_env ''x'' 0) (ex_env ''a6'' 0)
       (ex_request ''PUT'' ''/members/m'')
       (UpdateMember ''m'' \<lparr>mi_member_number = ''M-002'', mi_first_name = ''Janet'',
          mi_last_name = ''Doe'', mi_date_of_birth = None, mi_phone = None, mi_email = None\<rparr>)
       ex_d1))) = [''PENDING''] \<and>
   map m_status (members ex_d2) = [''VERIFIED'']"
proof -
  let ?c = "UpdateMember ''m'' \<lparr>mi_member_number = ''M-002'', mi_first_name = ''Janet'',
          mi_last_name = ''Doe'', mi_date_of_birth = None, mi_phone = None, mi_email = None\<rparr>"
  let ?d' = "snd (app (ex_env ''x'' 0) (ex_env ''a6'' 0) (ex_request ''PUT'' ''/members/m'') ?c ex_d1)"
  obtain m where m: "members ex_d1 = [m]" and ms: "m_status m = ''PENDING''" and mi: "m_id m = ''m''"
    using ex_d1_members by auto
  have ids: "map m_id (members ?d') = [''m'']"
    by (simp add: ex_d1_def run_defs update_member_def)
  then obtain m' where m': "members ?d' = [m']" and mi': "m_id m' = ''m''" by auto
  note t = member_status_only_by_decision[OF ex_d1_reachable,
      where e = "ex_env ''x'' 0" and ea = "ex_env ''a6'' 0"
        and request = "ex_request ''PUT'' ''/members/m''" and c = ?c]
  from t m m' mi mi' have "m_status m' = m_status m" by auto
  with m' ms have u: "map m_status (members ?d') = [''PENDING'']" by simp
  have v: "map m_status (members ex_d2) = [''VERIFIED'']"
    by (simp add: ex_d2_def ex_d1_def run_defs)
  from ex_d1_reachable ex_d1_members u v show ?thesis by simp
qed

end
